theory Spec2Isabelle
  imports Main "HOL-Library.Sublist" "HOL-Library.Word"
begin

section \<open>The music compositor notebook: data model\<close>

text \<open>
  The development embeds the code cells of \<^verbatim>\<open>music_compositor_agent_langgraph.ipynb\<close>:
  the five stage functions, the tables and helpers local to \<^verbatim>\<open>midi_converter\<close>, and the
  linear workflow that chains the stages.

  Python strings are modelled as \<^typ>\<open>string\<close>, read as sequences of code points below 256.
  A dictionary value is a string or an integer: \<^verbatim>\<open>MusicState\<close> is a \<^verbatim>\<open>TypedDict\<close>, which is
  not enforced when the program runs, and a caller may pass integers such as a duration.
\<close>

datatype pyval = PyStr string | PyInt int

text \<open>
  The exceptions a run can raise, with the name of their Python class: those of the stage
  bodies, the exception of a request to the chat model (kept with its message), and the
  engine's rejection of an input.
\<close>

datatype error =
    KeyError string | IndexError | AttributeError string
  | ExternalError string | InvalidUpdateError

fun exc_name :: "error \<Rightarrow> string" where
  "exc_name (KeyError k) = ''KeyError''"
| "exc_name IndexError = ''IndexError''"
| "exc_name (AttributeError a) = ''AttributeError''"
| "exc_name (ExternalError msg) = ''ExternalError''"
| "exc_name InvalidUpdateError = ''InvalidUpdateError''"

text \<open>The state is a dictionary; a stage returns a dictionary holding its partial update.\<close>

type_synonym MusicState = "string \<rightharpoonup> pyval"

type_synonym update = "(string \<times> pyval) list"

text \<open>
  The music21 objects the encoder builds. A note or chord is kept as the constructor
  argument the code passes and the \<^verbatim>\<open>quarterLength\<close> it assigns. A stream (\<^verbatim>\<open>Score\<close>,
  \<^verbatim>\<open>Part\<close>) is the list of its elements in the order the code adds them.
\<close>

datatype event =
    Note (pitch: string) (quarterLength: nat)
  | Chord (pitches: "string list") (quarterLength: nat)

datatype element = TextExpression pyval | Part "event list" | MetronomeMark nat

type_synonym Score = "element list"

subsection \<open>What lies outside the notebook\<close>

text \<open>
  The notebook reaches four things it does not define: the process-global generator of
  \<^verbatim>\<open>random\<close> (through \<^verbatim>\<open>random.choice\<close>), the chat model behind \<^verbatim>\<open>prompt | llm\<close>, the MIDI
  writer of music21, and the name \<^verbatim>\<open>tempfile\<close> gives a new file. They are parameters.
  \<^verbatim>\<open>randbelow g n\<close> is the generator's draw below \<open>n\<close> from state \<open>g\<close>, with the next state.
  \<^verbatim>\<open>llm_invoke calls template vars\<close> is what the chat model does with a request, given the
  requests issued before: it raises (\<open>Inl\<close>, with the message) or replies (\<open>Inr\<close>).
\<close>

record 'g externals =
  randbelow :: "'g \<Rightarrow> nat \<Rightarrow> nat \<times> 'g"
  llm_invoke ::
    "(string \<times> (string \<times> pyval) list) list \<Rightarrow> string \<Rightarrow> (string \<times> pyval) list \<Rightarrow> string + string"
  write_midi :: "Score \<Rightarrow> 8 word list"
  mkstemp :: "(string \<rightharpoonup> 8 word list) \<Rightarrow> string"

text \<open>
  The ambient state the stage bodies change: the generator's state, the file system, and
  the requests issued to the chat model so far (template and variables of each).
\<close>

record 'g world =
  rng :: 'g
  files :: "string \<rightharpoonup> 8 word list"
  llm_calls :: "(string \<times> (string \<times> pyval) list) list"

text \<open>A computation that may raise, over the ambient state.\<close>

type_synonym ('a, 'g) m = "'g world \<Rightarrow> (error + 'a) \<times> 'g world"

definition ret :: "'a \<Rightarrow> ('a, 'g) m" where
  "ret x w = (Inr x, w)"

definition raise :: "error \<Rightarrow> ('a, 'g) m" where
  "raise e w = (Inl e, w)"

definition bindE :: "('a, 'g) m \<Rightarrow> ('a \<Rightarrow> ('b, 'g) m) \<Rightarrow> ('b, 'g) m" where
  "bindE c f w = (case c w of (Inl e, w') \<Rightarrow> (Inl e, w') | (Inr x, w') \<Rightarrow> f x w')"

definition lift :: "error + 'a \<Rightarrow> ('a, 'g) m" where
  "lift r w = (r, w)"

subsection \<open>Python primitives\<close>

text \<open>\<^verbatim>\<open>d[k]\<close> on the state and on a table kept in insertion order.\<close>

definition getitem :: "MusicState \<Rightarrow> string \<Rightarrow> error + pyval" where
  "getitem state k = (case state k of None \<Rightarrow> Inl (KeyError k) | Some v \<Rightarrow> Inr v)"

definition getitem_tbl :: "(string \<times> 'a) list \<Rightarrow> string \<Rightarrow> error + 'a" where
  "getitem_tbl tbl k = (case map_of tbl k of None \<Rightarrow> Inl (KeyError k) | Some v \<Rightarrow> Inr v)"

text \<open>\<^verbatim>\<open>xs[i]\<close> for a literal index \<open>i \<ge> 0\<close>.\<close>

definition index :: "'a list \<Rightarrow> nat \<Rightarrow> error + 'a" where
  "index xs i = (if i < length xs then Inr (xs ! i) else Inl IndexError)"

text \<open>
  \<^verbatim>\<open>random.choice(seq)\<close>: \<^verbatim>\<open>IndexError\<close> on an empty sequence, else
  \<^verbatim>\<open>seq[self._randbelow(len(seq))]\<close>.
\<close>

definition choice :: "'g externals \<Rightarrow> 'a list \<Rightarrow> ('a, 'g) m" where
  "choice ext seq w =
     (if seq = [] then (Inl IndexError, w)
      else (case randbelow ext (rng w) (length seq) of
              (i, g') \<Rightarrow> (index seq i, w\<lparr>rng := g'\<rparr>)))"

text \<open>\<^verbatim>\<open>str.lower()\<close> on code points below 256: A..Z and the Latin-1 capitals.\<close>

definition lower_char :: "char \<Rightarrow> char" where
  "lower_char c =
     (let n = (of_char c :: nat)
      in if (65 \<le> n \<and> n \<le> 90) \<or> (192 \<le> n \<and> n \<le> 222 \<and> n \<noteq> 215)
         then char_of (n + 32) else c)"

definition str_lower :: "string \<Rightarrow> string" where
  "str_lower s = map lower_char s"

definition lower :: "pyval \<Rightarrow> error + string" where
  "lower v = (case v of PyStr s \<Rightarrow> Inr (str_lower s) | PyInt i \<Rightarrow> Inl (AttributeError ''lower''))"

text \<open>\<^verbatim>\<open>sub in s\<close> on strings.\<close>

fun starts_with :: "string \<Rightarrow> string \<Rightarrow> bool" where
  "starts_with [] s = True"
| "starts_with (p # ps) [] = False"
| "starts_with (p # ps) (c # cs) = (p = c \<and> starts_with ps cs)"

fun str_contains :: "string \<Rightarrow> string \<Rightarrow> bool" where
  "str_contains sub [] = (sub = [])"
| "str_contains sub (c # cs) = (starts_with sub (c # cs) \<or> str_contains sub cs)"

text \<open>\<^verbatim>\<open>str.split()\<close> with no argument: the maximal runs of characters that are not white space.\<close>

definition is_space :: "char \<Rightarrow> bool" where
  "is_space c =
     (let n = (of_char c :: nat)
      in (9 \<le> n \<and> n \<le> 13) \<or> (28 \<le> n \<and> n \<le> 32) \<or> n = 133 \<or> n = 160)"

fun split_acc :: "string \<Rightarrow> string \<Rightarrow> string list" where
  "split_acc cur [] = (if cur = [] then [] else [cur])"
| "split_acc cur (c # cs) =
     (if is_space c then (if cur = [] then split_acc [] cs else cur # split_acc [] cs)
      else split_acc (cur @ [c]) cs)"

definition str_split :: "string \<Rightarrow> string list" where
  "str_split s = split_acc [] s"

section \<open>The generative stages\<close>

text \<open>
  \<^verbatim>\<open>chain.invoke(vars)\<close> with \<^verbatim>\<open>chain = prompt | llm\<close>: one request to the chat model, built
  from the template and the variables. The request is issued; then the call raises the
  exception of the chat model, or returns the \<^verbatim>\<open>content\<close> of the reply.
\<close>

definition chain_invoke :: "'g externals \<Rightarrow> string \<Rightarrow> (string \<times> pyval) list \<Rightarrow> (string, 'g) m" where
  "chain_invoke ext template vars w =
     (case llm_invoke ext (llm_calls w) template vars of
        Inl msg \<Rightarrow> Inl (ExternalError msg)
      | Inr content \<Rightarrow> Inr content,
      w\<lparr>llm_calls := llm_calls w @ [(template, vars)]\<rparr>)"

definition melody_generator :: "'g externals \<Rightarrow> MusicState \<Rightarrow> (update, 'g) m" where
  "melody_generator ext state =
     bindE (lift (getitem state ''musician_input'')) (\<lambda>input.
     bindE (chain_invoke ext
        ''Create a melody that reflects the sentiment and style of this input: {input}. Format it in music21 notation.''
        [(''input'', input)]) (\<lambda>melody.
     ret [(''melody'', PyStr melody)]))"

definition harmony_creator :: "'g externals \<Rightarrow> MusicState \<Rightarrow> (update, 'g) m" where
  "harmony_creator ext state =
     bindE (lift (getitem state ''melody'')) (\<lambda>melody.
     bindE (chain_invoke ext
        ''Create harmony for this melody: {melody}. Represent it as a string of chords in music21 format.''
        [(''melody'', melody)]) (\<lambda>harmony.
     ret [(''harmony'', PyStr harmony)]))"

definition rhythm_analyzer :: "'g externals \<Rightarrow> MusicState \<Rightarrow> (update, 'g) m" where
  "rhythm_analyzer ext state =
     bindE (lift (getitem state ''melody'')) (\<lambda>melody.
     bindE (lift (getitem state ''harmony'')) (\<lambda>harmony.
     bindE (chain_invoke ext
        ''Analyze and suggest a rhythm for this melody and harmony: {melody}, {harmony}. Represent it as a string of durations in music21 format.''
        [(''melody'', melody), (''harmony'', harmony)]) (\<lambda>rhythm.
     ret [(''rhythm'', PyStr rhythm)])))"

definition style_adapter :: "'g externals \<Rightarrow> MusicState \<Rightarrow> (update, 'g) m" where
  "style_adapter ext state =
     bindE (lift (getitem state ''style'')) (\<lambda>style.
     bindE (lift (getitem state ''melody'')) (\<lambda>melody.
     bindE (lift (getitem state ''harmony'')) (\<lambda>harmony.
     bindE (lift (getitem state ''rhythm'')) (\<lambda>rhythm.
     bindE (chain_invoke ext
        ''Adapt this composition to the {style} style: Melody: {melody}, Harmony: {harmony}, Rhythm: {rhythm}. Provide the result in music21 format.''
        [(''style'', style), (''melody'', melody), (''harmony'', harmony), (''rhythm'', rhythm)]) (\<lambda>adapted.
     ret [(''composition'', PyStr adapted)])))))"

section \<open>The encoder\<close>

definition scales :: "(string \<times> string list) list" where
  "scales =
    [(''C major'', [''C'', ''D'', ''E'', ''F'', ''G'', ''A'', ''B'']),
     (''C minor'', [''C'', ''D'', ''Eb'', ''F'', ''G'', ''Ab'', ''Bb'']),
     (''C harmonic minor'', [''C'', ''D'', ''Eb'', ''F'', ''G'', ''Ab'', ''B'']),
     (''C melodic minor'', [''C'', ''D'', ''Eb'', ''F'', ''G'', ''A'', ''B'']),
     (''C dorian'', [''C'', ''D'', ''Eb'', ''F'', ''G'', ''A'', ''Bb'']),
     (''C phrygian'', [''C'', ''Db'', ''Eb'', ''F'', ''G'', ''Ab'', ''Bb'']),
     (''C lydian'', [''C'', ''D'', ''E'', ''F#'', ''G'', ''A'', ''B'']),
     (''C mixolydian'', [''C'', ''D'', ''E'', ''F'', ''G'', ''A'', ''Bb'']),
     (''C locrian'', [''C'', ''Db'', ''Eb'', ''F'', ''Gb'', ''Ab'', ''Bb'']),
     (''C whole tone'', [''C'', ''D'', ''E'', ''F#'', ''G#'', ''A#'']),
     (''C diminished'', [''C'', ''D'', ''Eb'', ''F'', ''Gb'', ''Ab'', ''A'', ''B''])]"

definition chords :: "(string \<times> string list) list" where
  "chords =
    [(''C major'', [''C4'', ''E4'', ''G4'']),
     (''C minor'', [''C4'', ''Eb4'', ''G4'']),
     (''C diminished'', [''C4'', ''Eb4'', ''Gb4'']),
     (''C augmented'', [''C4'', ''E4'', ''G#4'']),
     (''C dominant 7th'', [''C4'', ''E4'', ''G4'', ''Bb4'']),
     (''C major 7th'', [''C4'', ''E4'', ''G4'', ''B4'']),
     (''C minor 7th'', [''C4'', ''Eb4'', ''G4'', ''Bb4'']),
     (''C half-diminished 7th'', [''C4'', ''Eb4'', ''Gb4'', ''Bb4'']),
     (''C fully diminished 7th'', [''C4'', ''Eb4'', ''Gb4'', ''A4''])]"

text \<open>\<^verbatim>\<open>list(d.keys())\<close>.\<close>

definition keys :: "(string \<times> 'a) list \<Rightarrow> string list" where
  "keys tbl = map fst tbl"

text \<open>The loop of \<^verbatim>\<open>create_melody\<close>: one sampled pitch class per pass, in octave 4, one beat.\<close>

primrec create_melody_loop :: "'g externals \<Rightarrow> string list \<Rightarrow> nat \<Rightarrow> event list \<Rightarrow> (event list, 'g) m" where
  "create_melody_loop ext scale 0 melody = ret melody"
| "create_melody_loop ext scale (Suc n) melody =
     bindE (choice ext scale) (\<lambda>pc.
     create_melody_loop ext scale n (melody @ [Note (pc @ ''4'') 1]))"

definition create_melody :: "'g externals \<Rightarrow> string \<Rightarrow> nat \<Rightarrow> (event list, 'g) m" where
  "create_melody ext scale_name duration =
     bindE (lift (getitem_tbl scales scale_name)) (\<lambda>scale.
     create_melody_loop ext scale duration [])"

text \<open>The loop of \<^verbatim>\<open>create_chord_progression\<close>: one chord sampled from the whole table per pass.\<close>

primrec create_chord_progression_loop :: "'g externals \<Rightarrow> nat \<Rightarrow> event list \<Rightarrow> (event list, 'g) m" where
  "create_chord_progression_loop ext 0 harmony = ret harmony"
| "create_chord_progression_loop ext (Suc n) harmony =
     bindE (choice ext (keys chords)) (\<lambda>chord_name.
     bindE (lift (getitem_tbl chords chord_name)) (\<lambda>ps.
     create_chord_progression_loop ext n (harmony @ [Chord ps 1])))"

definition create_chord_progression :: "'g externals \<Rightarrow> nat \<Rightarrow> (event list, 'g) m" where
  "create_chord_progression ext duration = create_chord_progression_loop ext duration []"

text \<open>
  The scale selection of \<^verbatim>\<open>midi_converter\<close>: the lower-cased \<^verbatim>\<open>musician_input\<close> is scanned
  for \<^verbatim>\<open>minor\<close>, then for \<^verbatim>\<open>major\<close>; otherwise a key of \<^verbatim>\<open>scales\<close> is sampled.
\<close>

definition select_scale_name :: "'g externals \<Rightarrow> MusicState \<Rightarrow> (string, 'g) m" where
  "select_scale_name ext state =
     bindE (lift (getitem state ''musician_input'')) (\<lambda>v.
     bindE (lift (lower v)) (\<lambda>user_input.
       if str_contains ''minor'' user_input then ret ''C minor''
       else if str_contains ''major'' user_input then ret ''C major''
       else choice ext (keys scales)))"

text \<open>\<^verbatim>\<open>music21.note.Note(scales[scale_name][0] + '4')\<close> with \<^verbatim>\<open>quarterLength = 1\<close>.\<close>

definition final_note :: "string \<Rightarrow> error + event" where
  "final_note scale_name =
     (case getitem_tbl scales scale_name of Inl e \<Rightarrow> Inl e
      | Inr scale \<Rightarrow>
         (case index scale 0 of Inl e \<Rightarrow> Inl e
          | Inr pc \<Rightarrow> Inr (Note (pc @ ''4'') 1)))"

text \<open>The name \<^verbatim>\<open>scale_name.split()[0] + ' ' + scale_name.split()[1]\<close>.\<close>

definition final_chord_name :: "string \<Rightarrow> error + string" where
  "final_chord_name scale_name =
     (case index (str_split scale_name) 0 of Inl e \<Rightarrow> Inl e
      | Inr root \<Rightarrow>
         (case index (str_split scale_name) 1 of Inl e \<Rightarrow> Inl e
          | Inr quality \<Rightarrow> Inr (root @ '' '' @ quality)))"

text \<open>\<^verbatim>\<open>music21.chord.Chord(chords[...])\<close> with \<^verbatim>\<open>quarterLength = 1\<close>.\<close>

definition final_chord :: "string \<Rightarrow> error + event" where
  "final_chord scale_name =
     (case final_chord_name scale_name of Inl e \<Rightarrow> Inl e
      | Inr name \<Rightarrow>
         (case getitem_tbl chords name of Inl e \<Rightarrow> Inl e
          | Inr ps \<Rightarrow> Inr (Chord ps 1)))"

text \<open>
  The body of \<^verbatim>\<open>midi_converter\<close> up to the finished \<^verbatim>\<open>piece\<close>, in the order of the source:
  the text expression, the scale, seven sampled notes and chords, the final note, the
  final chord, the two parts appended, the tempo mark inserted.
\<close>

definition midi_converter_piece :: "'g externals \<Rightarrow> MusicState \<Rightarrow> (Score, 'g) m" where
  "midi_converter_piece ext state =
     bindE (lift (getitem state ''composition'')) (\<lambda>composition.
     bindE (select_scale_name ext state) (\<lambda>scale_name.
     bindE (create_melody ext scale_name 7) (\<lambda>melody.
     bindE (create_chord_progression ext 7) (\<lambda>harmony.
     bindE (lift (final_note scale_name)) (\<lambda>fnote.
     bindE (lift (final_chord scale_name)) (\<lambda>fchord.
     ret [TextExpression composition, Part (melody @ [fnote]), Part (harmony @ [fchord]),
          MetronomeMark 60]))))))"

text \<open>
  The temporary file: \<^verbatim>\<open>tempfile\<close> picks the name, \<^verbatim>\<open>piece.write('midi', name)\<close> stores the
  serialised score under it, and the name is the stage's update.
\<close>

definition write_temp :: "'g externals \<Rightarrow> Score \<Rightarrow> (string, 'g) m" where
  "write_temp ext piece w =
     (let name = mkstemp ext (files w)
      in (Inr name, w\<lparr>files := (files w)(name \<mapsto> write_midi ext piece)\<rparr>))"

definition midi_converter :: "'g externals \<Rightarrow> MusicState \<Rightarrow> (update, 'g) m" where
  "midi_converter ext state =
     bindE (midi_converter_piece ext state) (\<lambda>piece.
     bindE (write_temp ext piece) (\<lambda>name.
     ret [(''midi_file'', PyStr name)]))"

section \<open>The workflow\<close>

text \<open>
  The graph of the notebook is \<^verbatim>\<open>StateGraph(MusicState)\<close> with one chain from the entry point
  to \<^verbatim>\<open>END\<close>. The keys of the state are the fields of \<^verbatim>\<open>MusicState\<close>.
\<close>

definition state_keys :: "string list" where
  "state_keys =
     [''musician_input'', ''melody'', ''harmony'', ''rhythm'', ''style'', ''composition'',
      ''midi_file'']"

definition workflow :: "(string \<times> ('g externals \<Rightarrow> MusicState \<Rightarrow> (update, 'g) m)) list" where
  "workflow =
    [(''melody_generator'', melody_generator),
     (''harmony_creator'', harmony_creator),
     (''rhythm_analyzer'', rhythm_analyzer),
     (''style_adapter'', style_adapter),
     (''midi_converter'', midi_converter)]"

text \<open>
  \<^verbatim>\<open>app.invoke(inputs)\<close> first maps the input onto the state: the keys of \<^verbatim>\<open>MusicState\<close> are
  kept, every other key of the caller's dictionary is dropped, and an input that holds
  no key of \<^verbatim>\<open>MusicState\<close> is rejected with \<^verbatim>\<open>InvalidUpdateError\<close> before any node runs.
\<close>

definition map_input :: "MusicState \<Rightarrow> error + MusicState" where
  "map_input inputs =
     (if \<forall>k \<in> set state_keys. inputs k = None then Inl InvalidUpdateError
      else Inr (inputs |` set state_keys))"

text \<open>
  From the mapped state the engine runs the nodes in the order of the chain, merges each
  returned dictionary into the state, and lets the first exception escape together with
  the name of the node that raised it.
\<close>

fun run_nodes ::
  "'g externals \<Rightarrow> (string \<times> ('g externals \<Rightarrow> MusicState \<Rightarrow> (update, 'g) m)) list \<Rightarrow>
   MusicState \<Rightarrow> 'g world \<Rightarrow> ((string \<times> error) + MusicState) \<times> 'g world" where
  "run_nodes ext [] state w = (Inr state, w)"
| "run_nodes ext ((name, f) # rest) state w =
     (case f ext state w of
        (Inl e, w') \<Rightarrow> (Inl (name, e), w')
      | (Inr upd, w') \<Rightarrow> run_nodes ext rest (state ++ map_of upd) w')"

definition invoke :: "'g externals \<Rightarrow> MusicState \<Rightarrow> 'g world \<Rightarrow> ((string \<times> error) + MusicState) \<times> 'g world" where
  "invoke ext inputs w =
     (case map_input inputs of
        Inl e \<Rightarrow> (Inl (''__start__'', e), w)
      | Inr state \<Rightarrow> run_nodes ext workflow state w)"

text \<open>The states of a run, one after each node that completed.\<close>

fun states_from ::
  "'g externals \<Rightarrow> (string \<times> ('g externals \<Rightarrow> MusicState \<Rightarrow> (update, 'g) m)) list \<Rightarrow>
   MusicState \<Rightarrow> 'g world \<Rightarrow> MusicState list" where
  "states_from ext [] state w = []"
| "states_from ext ((name, f) # rest) state w =
     (case f ext state w of
        (Inl e, w') \<Rightarrow> []
      | (Inr upd, w') \<Rightarrow> (state ++ map_of upd) # states_from ext rest (state ++ map_of upd) w')"

definition run_states :: "'g externals \<Rightarrow> MusicState \<Rightarrow> 'g world \<Rightarrow> MusicState list" where
  "run_states ext inputs w =
     (case map_input inputs of
        Inl e \<Rightarrow> []
      | Inr state \<Rightarrow> states_from ext workflow state w)"

section \<open>Observations on a score\<close>

definition randbelow_ok :: "'g externals \<Rightarrow> bool" where
  "randbelow_ok ext \<longleftrightarrow> (\<forall>g n. 0 < n \<longrightarrow> fst (randbelow ext g n) < n)"

fun parts :: "Score \<Rightarrow> event list list" where
  "parts [] = []"
| "parts (Part p # es) = p # parts es"
| "parts (e # es) = parts es"

definition melody_of :: "Score \<Rightarrow> event list" where
  "melody_of piece = (case parts piece of m # rest \<Rightarrow> m | [] \<Rightarrow> [])"

definition harmony_of :: "Score \<Rightarrow> event list" where
  "harmony_of piece = (case parts piece of m # h # rest \<Rightarrow> h | _ \<Rightarrow> [])"

fun tempo_marks :: "Score \<Rightarrow> nat list" where
  "tempo_marks [] = []"
| "tempo_marks (MetronomeMark n # es) = n # tempo_marks es"
| "tempo_marks (e # es) = tempo_marks es"

text \<open>
  Computations that change nothing but the generator state, and whose result and next
  generator state depend on the generator state only.
\<close>

definition rng_only :: "('a, 'g) m \<Rightarrow> bool" where
  "rng_only c \<longleftrightarrow>
     (\<forall>w. snd (c w) = w\<lparr>rng := rng (snd (c w))\<rparr>) \<and>
     (\<forall>w w2. rng w2 = rng w \<longrightarrow> fst (c w2) = fst (c w) \<and> rng (snd (c w2)) = rng (snd (c w)))"

text \<open>A chat model that replies to every request.\<close>

definition llm_replies :: "'g externals \<Rightarrow> bool" where
  "llm_replies ext \<longleftrightarrow> (\<forall>calls template vars. \<exists>x. llm_invoke ext calls template vars = Inr x)"

text \<open>A stage whose update, when it returns, holds exactly one key.\<close>

definition writes_only ::
  "'g externals \<Rightarrow> ('g externals \<Rightarrow> MusicState \<Rightarrow> (update, 'g) m) \<Rightarrow> string \<Rightarrow> bool" where
  "writes_only ext f key \<longleftrightarrow>
     (\<forall>state w upd w'. f ext state w = (Inr upd, w') \<longrightarrow> (\<exists>v. upd = [(key, v)]))"

section \<open>Concrete externals and inputs\<close>

text \<open>
  A generator that counts up, a chat model with a fixed reply, a writer that records the
  size of each element of the score, and a temporary name that avoids a file that
  exists: enough to run the code.
\<close>

definition test_ext :: "nat externals" where
  "test_ext = \<lparr>randbelow = (\<lambda>g n. (g mod n, g + 1)),
               llm_invoke = (\<lambda>calls template vars. Inr ''X:1''),
               write_midi = map (\<lambda>e. case e of TextExpression v \<Rightarrow> 0
                                     | Part evs \<Rightarrow> of_nat (length evs)
                                     | MetronomeMark n \<Rightarrow> of_nat n),
               mkstemp = (\<lambda>fs. if fs ''/tmp/tmpa.mid'' = None then ''/tmp/tmpa.mid''
                                else ''/tmp/tmpb.mid'')\<rparr>"

definition test_world :: "nat \<Rightarrow> nat world" where
  "test_world seed = \<lparr>rng = seed, files = Map.empty, llm_calls = []\<rparr>"

text \<open>What a caller passes to the workflow: the musician's input and the style.\<close>

definition inputs :: "string \<Rightarrow> string \<Rightarrow> MusicState" where
  "inputs musician_input style =
     [''musician_input'' \<mapsto> PyStr musician_input, ''style'' \<mapsto> PyStr style]"

text \<open>The state the encoder sees: the composition text and the musician's input.\<close>

definition encoder_state :: "string \<Rightarrow> MusicState" where
  "encoder_state musician_input =
     [''musician_input'' \<mapsto> PyStr musician_input, ''style'' \<mapsto> PyStr ''Romantic'',
      ''composition'' \<mapsto> PyStr ''X:1'']"

text \<open>The piece the encoder builds from \<^verbatim>\<open>test_ext\<close> at seed 0 when the input names a minor key.\<close>

definition c_minor_piece :: Score where
  "c_minor_piece =
     [TextExpression (PyStr ''X:1''),
      Part [Note ''C4'' 1, Note ''D4'' 1, Note ''Eb4'' 1, Note ''F4'' 1,
            Note ''G4'' 1, Note ''Ab4'' 1, Note ''Bb4'' 1, Note ''C4'' 1],
      Part [Chord [''C4'', ''Eb4'', ''Gb4'', ''Bb4''] 1,
            Chord [''C4'', ''Eb4'', ''Gb4'', ''A4''] 1,
            Chord [''C4'', ''E4'', ''G4''] 1, Chord [''C4'', ''Eb4'', ''G4''] 1,
            Chord [''C4'', ''Eb4'', ''Gb4''] 1, Chord [''C4'', ''E4'', ''G#4''] 1,
            Chord [''C4'', ''E4'', ''G4'', ''Bb4''] 1, Chord [''C4'', ''Eb4'', ''G4''] 1],
      MetronomeMark 60]"

text \<open>The piece the encoder builds from \<^verbatim>\<open>test_ext\<close> at seed 0 when the input names a major key.\<close>

definition c_major_piece :: Score where
  "c_major_piece =
     [TextExpression (PyStr ''X:1''),
      Part [Note ''C4'' 1, Note ''D4'' 1, Note ''E4'' 1, Note ''F4'' 1,
            Note ''G4'' 1, Note ''A4'' 1, Note ''B4'' 1, Note ''C4'' 1],
      Part [Chord [''C4'', ''Eb4'', ''Gb4'', ''Bb4''] 1,
            Chord [''C4'', ''Eb4'', ''Gb4'', ''A4''] 1,
            Chord [''C4'', ''E4'', ''G4''] 1, Chord [''C4'', ''Eb4'', ''G4''] 1,
            Chord [''C4'', ''Eb4'', ''Gb4''] 1, Chord [''C4'', ''E4'', ''G#4''] 1,
            Chord [''C4'', ''E4'', ''G4'', ''Bb4''] 1, Chord [''C4'', ''E4'', ''G4''] 1],
      MetronomeMark 60]"

text \<open>A world in which the first temporary name is taken and requests were already issued.\<close>

definition busy_world :: "nat \<Rightarrow> nat world" where
  "busy_world seed =
     \<lparr>rng = seed, files = [''/tmp/tmpa.mid'' \<mapsto> [77, 84]], llm_calls = [(''hello'', [])]\<rparr>"

text \<open>The number of events of the melody and of the harmony of an encoder result, and its tempo marks.\<close>

definition melody_length :: "error + Score \<Rightarrow> error + nat" where
  "melody_length r = (case r of Inl e \<Rightarrow> Inl e | Inr piece \<Rightarrow> Inr (length (melody_of piece)))"

definition harmony_length :: "error + Score \<Rightarrow> error + nat" where
  "harmony_length r = (case r of Inl e \<Rightarrow> Inl e | Inr piece \<Rightarrow> Inr (length (harmony_of piece)))"

definition tempo_of :: "error + Score \<Rightarrow> error + nat list" where
  "tempo_of r = (case r of Inl e \<Rightarrow> Inl e | Inr piece \<Rightarrow> Inr (tempo_marks piece))"

text \<open>The exception and the node of a failed run, if it failed.\<close>

definition failure :: "((string \<times> error) + MusicState) \<times> 'g world \<Rightarrow> (string \<times> error) option" where
  "failure r = (case fst r of Inl ne \<Rightarrow> Some ne | Inr s \<Rightarrow> None)"

text \<open>The content of the file whose name the encoder returned.\<close>

definition output_file :: "(error + update) \<times> 'g world \<Rightarrow> error + 8 word list option" where
  "output_file r =
     (case fst r of Inl e \<Rightarrow> Inl e
      | Inr upd \<Rightarrow>
         (case map_of upd ''midi_file'' of
            Some (PyStr name) \<Rightarrow> Inr (files (snd r) name)
          | _ \<Rightarrow> Inr None))"

text \<open>The scales whose two-word chord name is no key of the chord table.\<close>

definition unmatched_scales :: "string list" where
  "unmatched_scales =
     filter (\<lambda>S. case final_chord_name S of Inl e \<Rightarrow> False | Inr n \<Rightarrow> map_of chords n = None)
       (keys scales)"

text \<open>The key each node of the workflow writes, in the order of the chain.\<close>

definition stage_keys :: "string list" where
  "stage_keys = [''melody'', ''harmony'', ''rhythm'', ''composition'', ''midi_file'']"

section \<open>Basic facts\<close>

lemma bindE_Inr:
  "bindE c f w = (Inr y, w2) \<Longrightarrow> \<exists>x w1. c w = (Inr x, w1) \<and> f x w1 = (Inr y, w2)"
  by (auto simp: bindE_def split: prod.splits sum.splits)

lemma bindE_fst_Inr:
  "fst (bindE c f w) = Inr y \<Longrightarrow> \<exists>x w1. c w = (Inr x, w1) \<and> fst (f x w1) = Inr y"
  by (auto simp: bindE_def split: prod.splits sum.splits)

lemma bindE_step: "c w = (Inr x, w1) \<Longrightarrow> bindE c f w = f x w1"
  by (simp add: bindE_def)

lemma bindE_raise: "c w = (Inl e, w1) \<Longrightarrow> bindE c f w = (Inl e, w1)"
  by (simp add: bindE_def)

lemma lift_Inr: "lift r w = (Inr x, w1) \<longleftrightarrow> r = Inr x \<and> w1 = w"
  by (auto simp: lift_def)

lemma ret_Inr: "ret x w = (Inr y, w1) \<longleftrightarrow> y = x \<and> w1 = w"
  by (auto simp: ret_def)

lemma choice_Inr: "choice ext seq w = (Inr x, w1) \<Longrightarrow> x \<in> set seq"
  by (auto simp: choice_def index_def split: if_splits prod.splits)

lemma choice_total:
  assumes "randbelow_ok ext" "seq \<noteq> []"
  shows "\<exists>x g. choice ext seq w = (Inr x, w\<lparr>rng := g\<rparr>) \<and> x \<in> set seq"
proof -
  obtain i g where r: "randbelow ext (rng w) (length seq) = (i, g)"
    by (cases "randbelow ext (rng w) (length seq)")
  from assms have "fst (randbelow ext (rng w) (length seq)) < length seq"
    by (simp add: randbelow_ok_def)
  with r have "i < length seq" by simp
  with r assms(2) show ?thesis
    by (auto simp: choice_def index_def)
qed

lemma create_melody_loop_Inr:
  "create_melody_loop ext scale n acc w = (Inr mel, w1) \<Longrightarrow>
   \<exists>new. mel = acc @ new \<and> length new = n \<and> (\<forall>e \<in> set new. \<exists>pc \<in> set scale. e = Note (pc @ ''4'') 1)"
proof (induction n arbitrary: acc w)
  case 0
  then show ?case by (simp add: ret_def)
next
  case (Suc n)
  from Suc.prems obtain pc w0 where
    c: "choice ext scale w = (Inr pc, w0)" and
    l: "create_melody_loop ext scale n (acc @ [Note (pc @ ''4'') 1]) w0 = (Inr mel, w1)"
    by (auto dest!: bindE_Inr)
  from Suc.IH [OF l] obtain new where
    n: "mel = (acc @ [Note (pc @ ''4'') 1]) @ new" "length new = n"
       "\<forall>e \<in> set new. \<exists>pc \<in> set scale. e = Note (pc @ ''4'') 1"
    by blast
  from choice_Inr [OF c] have "pc \<in> set scale" .
  with n have "mel = acc @ (Note (pc @ ''4'') 1 # new) \<and> length (Note (pc @ ''4'') 1 # new) = Suc n \<and>
     (\<forall>e \<in> set (Note (pc @ ''4'') 1 # new). \<exists>pc \<in> set scale. e = Note (pc @ ''4'') 1)"
    by auto
  then show ?case by blast
qed

lemma create_chord_progression_loop_Inr:
  "create_chord_progression_loop ext n acc w = (Inr har, w1) \<Longrightarrow>
   \<exists>new. har = acc @ new \<and> length new = n \<and>
     (\<forall>e \<in> set new. \<exists>ps \<in> set (map snd chords). e = Chord ps 1)"
proof (induction n arbitrary: acc w)
  case 0
  then show ?case by (simp add: ret_def)
next
  case (Suc n)
  from Suc.prems obtain chord_name w0 ps where
    c: "choice ext (keys chords) w = (Inr chord_name, w0)" and
    g: "getitem_tbl chords chord_name = Inr ps" and
    l: "create_chord_progression_loop ext n (acc @ [Chord ps 1]) w0 = (Inr har, w1)"
    by (auto dest!: bindE_Inr simp: lift_Inr)
  from Suc.IH [OF l] obtain new where
    n: "har = (acc @ [Chord ps 1]) @ new" "length new = n"
       "\<forall>e \<in> set new. \<exists>ps \<in> set (map snd chords). e = Chord ps 1"
    by blast
  from g have "map_of chords chord_name = Some ps"
    by (simp add: getitem_tbl_def split: option.splits)
  then have "ps \<in> set (map snd chords)"
    by (metis map_of_SomeD set_zip_rightD zip_map_fst_snd)
  with n have "har = acc @ (Chord ps 1 # new) \<and> length (Chord ps 1 # new) = Suc n \<and>
     (\<forall>e \<in> set (Chord ps 1 # new). \<exists>ps \<in> set (map snd chords). e = Chord ps 1)"
    by auto
  then show ?case by blast
qed

lemma create_melody_loop_total:
  assumes "randbelow_ok ext" "scale \<noteq> []"
  shows "\<exists>mel g. create_melody_loop ext scale n acc w = (Inr mel, w\<lparr>rng := g\<rparr>)"
proof (induction n arbitrary: acc w)
  case 0
  have "w = w\<lparr>rng := rng w\<rparr>" by simp
  then show ?case unfolding create_melody_loop.simps ret_def by blast
next
  case (Suc n)
  from choice_total [OF assms] obtain pc g where
    c: "choice ext scale w = (Inr pc, w\<lparr>rng := g\<rparr>)" by blast
  from Suc.IH [of "acc @ [Note (pc @ ''4'') 1]" "w\<lparr>rng := g\<rparr>"] obtain mel g' where
    "create_melody_loop ext scale n (acc @ [Note (pc @ ''4'') 1]) (w\<lparr>rng := g\<rparr>) = (Inr mel, w\<lparr>rng := g'\<rparr>)"
    by auto
  with c show ?case by (auto simp: bindE_step)
qed

lemma keys_chords_lookup:
  "x \<in> set (keys chords) \<Longrightarrow> \<exists>ps. getitem_tbl chords x = Inr ps"
  by (auto simp: keys_def getitem_tbl_def split: option.splits dest: weak_map_of_SomeI)

lemma create_chord_progression_loop_total:
  assumes "randbelow_ok ext"
  shows "\<exists>har g. create_chord_progression_loop ext n acc w = (Inr har, w\<lparr>rng := g\<rparr>)"
proof (induction n arbitrary: acc w)
  case 0
  have "w = w\<lparr>rng := rng w\<rparr>" by simp
  then show ?case unfolding create_chord_progression_loop.simps ret_def by blast
next
  case (Suc n)
  have ne: "keys chords \<noteq> []" by (simp add: keys_def chords_def)
  from choice_total [OF assms ne] obtain nm g where
    c: "choice ext (keys chords) w = (Inr nm, w\<lparr>rng := g\<rparr>)" and m: "nm \<in> set (keys chords)" by blast
  from keys_chords_lookup [OF m] obtain ps where g: "getitem_tbl chords nm = Inr ps" by blast
  from Suc.IH [of "acc @ [Chord ps 1]" "w\<lparr>rng := g\<rparr>"] obtain har g' where
    "create_chord_progression_loop ext n (acc @ [Chord ps 1]) (w\<lparr>rng := g\<rparr>) = (Inr har, w\<lparr>rng := g'\<rparr>)"
    by auto
  with c g show ?case by (auto simp: bindE_step lift_def)
qed

lemma keys_scales:
  "keys scales = [''C major'', ''C minor'', ''C harmonic minor'', ''C melodic minor'', ''C dorian'',
     ''C phrygian'', ''C lydian'', ''C mixolydian'', ''C locrian'', ''C whole tone'', ''C diminished'']"
  by (simp add: keys_def scales_def)

lemma select_scale_name_in_table:
  assumes "select_scale_name ext state w = (Inr S, w1)"
  shows "S \<in> set (keys scales)"
proof -
  from assms obtain v user_input where
    s: "(if str_contains ''minor'' user_input then ret ''C minor''
         else if str_contains ''major'' user_input then ret ''C major''
         else choice ext (keys scales)) w = (Inr S, w1)"
    unfolding select_scale_name_def
    by (auto dest!: bindE_Inr simp: lift_Inr)
  show ?thesis
  proof (cases "str_contains ''minor'' user_input")
    case True
    with s show ?thesis by (simp add: ret_def keys_scales)
  next
    case False
    note nminor = this
    show ?thesis
    proof (cases "str_contains ''major'' user_input")
      case True
      with s nminor show ?thesis by (simp add: ret_def keys_scales)
    next
      case False
      with s nminor have "choice ext (keys scales) w = (Inr S, w1)" by simp
      then show ?thesis by (rule choice_Inr)
    qed
  qed
qed

lemma scales_lookup:
  assumes "S \<in> set (keys scales)"
  shows "\<exists>scale. getitem_tbl scales S = Inr scale \<and> map_of scales S = Some scale \<and>
           scale \<noteq> [] \<and> hd scale = ''C''"
proof -
  from assms have "S \<in> set [''C major'', ''C minor'', ''C harmonic minor'', ''C melodic minor'', ''C dorian'',
     ''C phrygian'', ''C lydian'', ''C mixolydian'', ''C locrian'', ''C whole tone'', ''C diminished'']"
    by (simp only: keys_scales)
  then show ?thesis
    by (auto simp: getitem_tbl_def scales_def)
qed

lemma final_note_table:
  assumes "S \<in> set (keys scales)"
  shows "final_note S = Inr (Note ''C4'' 1)"
proof -
  from scales_lookup [OF assms] obtain scale where
    "getitem_tbl scales S = Inr scale" "scale \<noteq> []" "hd scale = ''C''" by blast
  then show ?thesis
    by (cases scale) (auto simp: final_note_def index_def)
qed

lemma final_chord_results:
  "map final_chord (keys scales) =
    [Inr (Chord [''C4'', ''E4'', ''G4''] 1),
     Inr (Chord [''C4'', ''Eb4'', ''G4''] 1),
     Inl (KeyError ''C harmonic''),
     Inl (KeyError ''C melodic''),
     Inl (KeyError ''C dorian''),
     Inl (KeyError ''C phrygian''),
     Inl (KeyError ''C lydian''),
     Inl (KeyError ''C mixolydian''),
     Inl (KeyError ''C locrian''),
     Inl (KeyError ''C whole''),
     Inr (Chord [''C4'', ''Eb4'', ''Gb4''] 1)]"
  by code_simp

lemma final_chord_name_results:
  "map final_chord_name (keys scales) =
    [Inr ''C major'', Inr ''C minor'', Inr ''C harmonic'', Inr ''C melodic'', Inr ''C dorian'',
     Inr ''C phrygian'', Inr ''C lydian'', Inr ''C mixolydian'', Inr ''C locrian'', Inr ''C whole'',
     Inr ''C diminished'']"
  by code_simp

lemma final_chord_checked:
  "\<forall>S \<in> set (keys scales).
     (case final_chord S of Inl e \<Rightarrow> True
      | Inr fc \<Rightarrow> (S, fc) \<in> set [(''C major'', Chord [''C4'', ''E4'', ''G4''] 1),
                                (''C minor'', Chord [''C4'', ''Eb4'', ''G4''] 1),
                                (''C diminished'', Chord [''C4'', ''Eb4'', ''Gb4''] 1)])"
  by code_simp

lemma final_chord_cases:
  assumes "S \<in> set (keys scales)" "final_chord S = Inr fc"
  shows "(S = ''C major'' \<and> fc = Chord [''C4'', ''E4'', ''G4''] 1) \<or>
         (S = ''C minor'' \<and> fc = Chord [''C4'', ''Eb4'', ''G4''] 1) \<or>
         (S = ''C diminished'' \<and> fc = Chord [''C4'', ''Eb4'', ''Gb4''] 1)"
proof -
  from final_chord_checked assms(1) have
    "case final_chord S of Inl e \<Rightarrow> True
      | Inr fc \<Rightarrow> (S, fc) \<in> set [(''C major'', Chord [''C4'', ''E4'', ''G4''] 1),
                                (''C minor'', Chord [''C4'', ''Eb4'', ''G4''] 1),
                                (''C diminished'', Chord [''C4'', ''Eb4'', ''Gb4''] 1)]"
    by (rule bspec)
  with assms(2) have "(S, fc) \<in> set [(''C major'', Chord [''C4'', ''E4'', ''G4''] 1),
                                (''C minor'', Chord [''C4'', ''Eb4'', ''G4''] 1),
                                (''C diminished'', Chord [''C4'', ''Eb4'', ''Gb4''] 1)]"
    by simp
  then show ?thesis
    by (simp only: set_simps insert_iff empty_iff prod.inject) blast
qed

lemma create_melody_Inr:
  assumes "create_melody ext S n w = (Inr mel, w1)"
  shows "\<exists>scale. map_of scales S = Some scale \<and> length mel = n \<and>
           (\<forall>e \<in> set mel. \<exists>pc \<in> set scale. e = Note (pc @ ''4'') 1)"
proof -
  from assms obtain scale where
    g: "getitem_tbl scales S = Inr scale" and
    l: "create_melody_loop ext scale n [] w = (Inr mel, w1)"
    unfolding create_melody_def by (auto dest!: bindE_Inr simp: lift_Inr)
  from g have "map_of scales S = Some scale"
    by (simp add: getitem_tbl_def split: option.splits)
  with create_melody_loop_Inr [OF l] show ?thesis by auto
qed

lemma create_chord_progression_Inr:
  assumes "create_chord_progression ext n w = (Inr har, w1)"
  shows "length har = n \<and> (\<forall>e \<in> set har. \<exists>ps \<in> set (map snd chords). e = Chord ps 1)"
  using create_chord_progression_loop_Inr [of ext n "[]" w har w1] assms
  by (auto simp: create_chord_progression_def)

lemma piece_shape:
  assumes "fst (midi_converter_piece ext state w) = Inr piece"
  shows "\<exists>c S scale mel har fc.
     state ''composition'' = Some c \<and> fst (select_scale_name ext state w) = Inr S \<and>
     S \<in> set (keys scales) \<and> map_of scales S = Some scale \<and>
     length mel = 7 \<and> (\<forall>e \<in> set mel. \<exists>pc \<in> set scale. e = Note (pc @ ''4'') 1) \<and>
     length har = 7 \<and> (\<forall>e \<in> set har. \<exists>ps \<in> set (map snd chords). e = Chord ps 1) \<and>
     final_chord S = Inr fc \<and>
     piece = [TextExpression c, Part (mel @ [Note ''C4'' 1]), Part (har @ [fc]), MetronomeMark 60]"
proof -
  from assms obtain c S w1 mel w2 har w3 fn fc where
    c: "getitem state ''composition'' = Inr c" and
    s: "select_scale_name ext state w = (Inr S, w1)" and
    m: "create_melody ext S 7 w1 = (Inr mel, w2)" and
    h: "create_chord_progression ext 7 w2 = (Inr har, w3)" and
    n: "final_note S = Inr fn" and
    f: "final_chord S = Inr fc" and
    p: "piece = [TextExpression c, Part (mel @ [fn]), Part (har @ [fc]), MetronomeMark 60]"
    unfolding midi_converter_piece_def
    by (auto dest!: bindE_fst_Inr bindE_Inr simp: lift_Inr ret_def)
  from c have c': "state ''composition'' = Some c"
    by (simp add: getitem_def split: option.splits)
  from select_scale_name_in_table [OF s] have k: "S \<in> set (keys scales)" .
  from final_note_table [OF k] n have fn: "fn = Note ''C4'' 1" by simp
  from create_melody_Inr [OF m] obtain scale where
    sc: "map_of scales S = Some scale" "length mel = 7"
        "\<forall>e \<in> set mel. \<exists>pc \<in> set scale. e = Note (pc @ ''4'') 1" by blast
  from create_chord_progression_Inr [OF h] have
    hc: "length har = 7" "\<forall>e \<in> set har. \<exists>ps \<in> set (map snd chords). e = Chord ps 1" by auto
  from s have "fst (select_scale_name ext state w) = Inr S" by simp
  with c' k sc hc f p fn show ?thesis by blast
qed

lemma select_scale_name_world:
  assumes "select_scale_name ext state w = (Inr S, w1)"
  shows "\<exists>g. w1 = w\<lparr>rng := g\<rparr>"
proof -
  from assms obtain v user_input where
    s: "(if str_contains ''minor'' user_input then ret ''C minor''
         else if str_contains ''major'' user_input then ret ''C major''
         else choice ext (keys scales)) w = (Inr S, w1)"
    unfolding select_scale_name_def
    by (auto dest!: bindE_Inr simp: lift_Inr)
  have same: "w = w\<lparr>rng := rng w\<rparr>" by simp
  show ?thesis
  proof (cases "str_contains ''minor'' user_input \<or> str_contains ''major'' user_input")
    case True
    with s have "w1 = w" by (auto simp: ret_def split: if_splits)
    with same show ?thesis by (intro exI [of _ "rng w"]) simp
  next
    case False
    with s have "choice ext (keys scales) w = (Inr S, w1)" by simp
    then show ?thesis
      by (auto simp: choice_def split: if_splits prod.splits)
  qed
qed

lemma encoder_outcome:
  assumes ok: "randbelow_ok ext"
    and c: "state ''composition'' = Some c"
    and s: "fst (select_scale_name ext state w) = Inr S"
  shows "\<exists>mel har g. length mel = 7 \<and> length har = 7 \<and> midi_converter_piece ext state w =
           (case final_chord S of Inl e \<Rightarrow> Inl e
            | Inr fc \<Rightarrow> Inr [TextExpression c, Part (mel @ [Note ''C4'' 1]), Part (har @ [fc]),
                             MetronomeMark 60],
            w\<lparr>rng := g\<rparr>)"
proof -
  obtain w1 where s1: "select_scale_name ext state w = (Inr S, w1)"
    using s by (cases "select_scale_name ext state w") auto
  have k: "S \<in> set (keys scales)" by (rule select_scale_name_in_table [OF s1])
  from select_scale_name_world [OF s1] obtain g1 where w1e: "w1 = w\<lparr>rng := g1\<rparr>" by blast
  from scales_lookup [OF k] obtain scale where
    sc: "getitem_tbl scales S = Inr scale" "scale \<noteq> []" by blast
  from create_melody_loop_total [OF ok sc(2), of 7 "[]" w1] obtain mel g2 where
    m: "create_melody_loop ext scale 7 [] w1 = (Inr mel, w1\<lparr>rng := g2\<rparr>)" by blast
  from create_melody_loop_Inr [OF m] have lm: "length mel = 7" by auto
  from create_chord_progression_loop_total [OF ok, of 7 "[]" "w1\<lparr>rng := g2\<rparr>"] obtain har g3 where
    h: "create_chord_progression_loop ext 7 [] (w1\<lparr>rng := g2\<rparr>) = (Inr har, w1\<lparr>rng := g2, rng := g3\<rparr>)"
    by auto
  from create_chord_progression_loop_Inr [OF h] have lh: "length har = 7" by auto
  have n: "final_note S = Inr (Note ''C4'' 1)" by (rule final_note_table [OF k])
  have b1: "\<And>f. bindE (lift (getitem state ''composition'')) f w = f c w"
    by (simp add: bindE_def lift_def getitem_def c)
  have b2: "\<And>f. bindE (select_scale_name ext state) f w = f S w1"
    by (simp add: bindE_def s1)
  have b3: "\<And>f. bindE (create_melody ext S 7) f w1 = f mel (w1\<lparr>rng := g2\<rparr>)"
    unfolding create_melody_def using sc(1) m by (simp add: bindE_def lift_def)
  have b4: "\<And>f. bindE (create_chord_progression ext 7) f (w1\<lparr>rng := g2\<rparr>) =
               f har (w1\<lparr>rng := g2, rng := g3\<rparr>)"
    unfolding create_chord_progression_def using h by (simp add: bindE_def)
  have b5: "\<And>f w'. bindE (lift (final_note S)) f w' = f (Note ''C4'' 1) w'"
    by (simp add: bindE_def lift_def n)
  have 5: "w1\<lparr>rng := g2, rng := g3\<rparr> = w\<lparr>rng := g3\<rparr>"
    by (simp add: w1e)
  have "midi_converter_piece ext state w =
           (case final_chord S of Inl e \<Rightarrow> Inl e
            | Inr fc \<Rightarrow> Inr [TextExpression c, Part (mel @ [Note ''C4'' 1]), Part (har @ [fc]),
                             MetronomeMark 60],
            w\<lparr>rng := g3\<rparr>)"
    unfolding midi_converter_piece_def
    apply (simp only: b1 b2 b3 b4 b5)
    apply (simp only: 5)
    apply (cases "final_chord S")
     apply (simp_all add: bindE_def lift_def ret_def)
    done
  with lm lh show ?thesis by blast
qed

lemma encoder_returns:
  assumes "randbelow_ok ext" "state ''composition'' = Some c"
    "fst (select_scale_name ext state w) = Inr S" "final_chord S = Inr fc"
  shows "\<exists>mel har. length mel = 7 \<and> length har = 7 \<and> fst (midi_converter_piece ext state w) =
           Inr [TextExpression c, Part (mel @ [Note ''C4'' 1]), Part (har @ [fc]), MetronomeMark 60]"
proof -
  from encoder_outcome [OF assms(1-3)] obtain mel har g where
    "length mel = 7" "length har = 7"
    "midi_converter_piece ext state w =
           (case final_chord S of Inl e \<Rightarrow> Inl e
            | Inr fc \<Rightarrow> Inr [TextExpression c, Part (mel @ [Note ''C4'' 1]), Part (har @ [fc]),
                             MetronomeMark 60],
            w\<lparr>rng := g\<rparr>)" by blast
  with assms(4) show ?thesis by auto
qed

lemma encoder_raises:
  assumes "randbelow_ok ext" "state ''composition'' = Some c"
    "fst (select_scale_name ext state w) = Inr S" "final_chord S = Inl e"
  shows "\<exists>g. midi_converter_piece ext state w = (Inl e, w\<lparr>rng := g\<rparr>)"
proof -
  from encoder_outcome [OF assms(1-3)] obtain mel har g where
    "midi_converter_piece ext state w =
           (case final_chord S of Inl e \<Rightarrow> Inl e
            | Inr fc \<Rightarrow> Inr [TextExpression c, Part (mel @ [Note ''C4'' 1]), Part (har @ [fc]),
                             MetronomeMark 60],
            w\<lparr>rng := g\<rparr>)" by blast
  with assms(4) show ?thesis by auto
qed

section \<open>The final chord\<close>

lemma randbelow_ok_test_ext: "randbelow_ok test_ext"
  by (simp add: randbelow_ok_def test_ext_def)

lemma midi_converter_of_piece:
  assumes "midi_converter_piece ext state w = (Inr piece, w1)"
  shows "midi_converter ext state w =
          (Inr [(''midi_file'', PyStr (mkstemp ext (files w1)))],
           w1\<lparr>files := (files w1)(mkstemp ext (files w1) \<mapsto> write_midi ext piece)\<rparr>)"
  using assms by (simp add: midi_converter_def bindE_def write_temp_def ret_def Let_def)

lemma midi_converter_raises:
  assumes "midi_converter_piece ext state w = (Inl e, w1)"
  shows "midi_converter ext state w = (Inl e, w1)"
  using assms by (simp add: midi_converter_def bindE_def)

text \<open>
  C10: for the scale \<^verbatim>\<open>C diminished\<close> the constructed chord name is a key of the chord
  table, the final chord lookup succeeds, and an encoder run that selected this scale
  builds its piece with that chord last in the harmony.
\<close>

theorem C10_diminished_final_chord:
  "final_chord_name ''C diminished'' = Inr ''C diminished'' \<and>
   map_of chords ''C diminished'' = Some [''C4'', ''Eb4'', ''Gb4''] \<and>
   final_chord ''C diminished'' = Inr (Chord [''C4'', ''Eb4'', ''Gb4''] 1) \<and>
   (randbelow_ok ext \<and> state ''composition'' = Some c \<and>
    fst (select_scale_name ext state w) = Inr ''C diminished'' \<longrightarrow>
      (\<exists>mel har. length mel = 7 \<and> length har = 7 \<and>
         fst (midi_converter_piece ext state w) =
           Inr [TextExpression c, Part (mel @ [Note ''C4'' 1]),
                Part (har @ [Chord [''C4'', ''Eb4'', ''Gb4''] 1]), MetronomeMark 60]))"
proof -
  have n: "final_chord_name ''C diminished'' = Inr ''C diminished''" by code_simp
  have m: "map_of chords ''C diminished'' = Some [''C4'', ''Eb4'', ''Gb4'']" by code_simp
  have f: "final_chord ''C diminished'' = Inr (Chord [''C4'', ''Eb4'', ''Gb4''] 1)" by code_simp
  from n m f encoder_returns [where S = "''C diminished''", OF _ _ _ f] show ?thesis
    by blast
qed

theorem C10_diminished_final_chord_witness:
  "randbelow_ok test_ext \<and>
   encoder_state ''Create a happy piece'' ''composition'' = Some (PyStr ''X:1'') \<and>
   fst (select_scale_name test_ext (encoder_state ''Create a happy piece'') (test_world 10)) =
     Inr ''C diminished'' \<and>
   (\<exists>mel har. length mel = 7 \<and> length har = 7 \<and>
      fst (midi_converter_piece test_ext (encoder_state ''Create a happy piece'') (test_world 10)) =
        Inr [TextExpression (PyStr ''X:1''), Part (mel @ [Note ''C4'' 1]),
             Part (har @ [Chord [''C4'', ''Eb4'', ''Gb4''] 1]), MetronomeMark 60])"
proof -
  have 1: "randbelow_ok test_ext" by (rule randbelow_ok_test_ext)
  have 2: "encoder_state ''Create a happy piece'' ''composition'' = Some (PyStr ''X:1'')"
    by code_simp
  have 3: "fst (select_scale_name test_ext (encoder_state ''Create a happy piece'') (test_world 10)) =
     Inr ''C diminished''"
    by code_simp
  from C10_diminished_final_chord [of test_ext "encoder_state ''Create a happy piece''"
      "PyStr ''X:1''" "test_world 10"] 1 2 3
  show ?thesis by blast
qed

lemma unmatched_scales_eq:
  "unmatched_scales =
     [''C harmonic minor'', ''C melodic minor'', ''C dorian'', ''C phrygian'', ''C lydian'',
      ''C mixolydian'', ''C locrian'', ''C whole tone'']"
  by code_simp

text \<open>
  C2, as the code has it: when the name built from the first two words of the selected
  scale is no key of the chord table, the final chord lookup raises Python's
  \<^verbatim>\<open>KeyError\<close> on that name, and the exception leaves \<^verbatim>\<open>midi_converter\<close> as it is, with
  no file written. The scales of the table for which this happens are the three other
  minor and modal scales listed below and \<^verbatim>\<open>C whole tone\<close>; \<^verbatim>\<open>C diminished\<close> is not one.
\<close>

theorem C2_final_chord_key_error:
  "(final_chord_name S = Inr n \<and> map_of chords n = None \<longrightarrow>
      final_chord S = Inl (KeyError n) \<and> exc_name (KeyError n) = ''KeyError'' \<and>
      (randbelow_ok ext \<and> state ''composition'' = Some c \<and>
       fst (select_scale_name ext state w) = Inr S \<longrightarrow>
         fst (midi_converter ext state w) = Inl (KeyError n) \<and>
         files (snd (midi_converter ext state w)) = files w)) \<and>
   unmatched_scales =
     [''C harmonic minor'', ''C melodic minor'', ''C dorian'', ''C phrygian'', ''C lydian'',
      ''C mixolydian'', ''C locrian'', ''C whole tone'']"
proof -
  have "fst (midi_converter ext state w) = Inl (KeyError n) \<and>
        files (snd (midi_converter ext state w)) = files w"
    if f: "final_chord S = Inl (KeyError n)" and ok: "randbelow_ok ext"
      and c: "state ''composition'' = Some c"
      and s: "fst (select_scale_name ext state w) = Inr S"
  proof -
    from encoder_raises [OF ok c s f] obtain g where
      "midi_converter_piece ext state w = (Inl (KeyError n), w\<lparr>rng := g\<rparr>)" by blast
    from midi_converter_raises [OF this] show ?thesis by simp
  qed
  moreover have "final_chord S = Inl (KeyError n)"
    if "final_chord_name S = Inr n" "map_of chords n = None"
    using that by (simp add: final_chord_def getitem_tbl_def)
  ultimately show ?thesis
    using unmatched_scales_eq by auto
qed

theorem C2_final_chord_key_error_witness:
  "final_chord_name ''C whole tone'' = Inr ''C whole'' \<and> map_of chords ''C whole'' = None \<and>
   randbelow_ok test_ext \<and>
   encoder_state ''Create a happy piece'' ''composition'' = Some (PyStr ''X:1'') \<and>
   fst (select_scale_name test_ext (encoder_state ''Create a happy piece'') (test_world 9)) =
     Inr ''C whole tone'' \<and>
   final_chord ''C whole tone'' = Inl (KeyError ''C whole'') \<and>
   fst (midi_converter test_ext (encoder_state ''Create a happy piece'') (test_world 9)) =
     Inl (KeyError ''C whole'') \<and>
   files (snd (midi_converter test_ext (encoder_state ''Create a happy piece'') (test_world 9))) =
     files (test_world 9)"
proof -
  have 1: "final_chord_name ''C whole tone'' = Inr ''C whole''" by code_simp
  have 2: "map_of chords ''C whole'' = None" by code_simp
  have 3: "randbelow_ok test_ext" by (rule randbelow_ok_test_ext)
  have 4: "encoder_state ''Create a happy piece'' ''composition'' = Some (PyStr ''X:1'')"
    by code_simp
  have 5: "fst (select_scale_name test_ext (encoder_state ''Create a happy piece'') (test_world 9)) =
     Inr ''C whole tone''"
    by code_simp
  from C2_final_chord_key_error [of "''C whole tone''" "''C whole''" test_ext
      "encoder_state ''Create a happy piece''" "PyStr ''X:1''" "test_world 9"] 1 2 3 4 5
  show ?thesis by blast
qed

theorem C2_counterexample:
  "final_chord ''C dorian'' = Inl (KeyError ''C dorian'') \<and>
   exc_name (KeyError ''C dorian'') \<noteq> ''ChordLookupError'' \<and>
   fst (select_scale_name test_ext (encoder_state ''Create a happy piece'') (test_world 4)) =
     Inr ''C dorian'' \<and>
   fst (midi_converter test_ext (encoder_state ''Create a happy piece'') (test_world 4)) =
     Inl (KeyError ''C dorian'')"
  by code_simp

section \<open>The tracks of the piece\<close>

lemma starts_with_prefix: "starts_with p s \<longleftrightarrow> prefix p s"
  by (induction p s rule: starts_with.induct) simp_all

lemma str_contains_sublist: "str_contains sub s \<longleftrightarrow> sublist sub s"
  by (induction s) (simp_all add: starts_with_prefix sublist_Cons_right)

lemma piece_tracks:
  assumes "fst (midi_converter_piece ext state w) = Inr piece"
  shows "\<exists>S scale mel har fc.
     fst (select_scale_name ext state w) = Inr S \<and> S \<in> set (keys scales) \<and>
     map_of scales S = Some scale \<and> final_chord S = Inr fc \<and>
     length mel = 7 \<and> (\<forall>e \<in> set mel. \<exists>pc \<in> set scale. e = Note (pc @ ''4'') 1) \<and>
     length har = 7 \<and> (\<forall>e \<in> set har. \<exists>ps \<in> set (map snd chords). e = Chord ps 1) \<and>
     parts piece = [mel @ [Note ''C4'' 1], har @ [fc]] \<and>
     melody_of piece = mel @ [Note ''C4'' 1] \<and> harmony_of piece = har @ [fc] \<and>
     tempo_marks piece = [60]"
proof -
  from piece_shape [OF assms] obtain c S scale mel har fc where
    h: "fst (select_scale_name ext state w) = Inr S" "S \<in> set (keys scales)"
       "map_of scales S = Some scale" "final_chord S = Inr fc"
       "length mel = 7" "\<forall>e \<in> set mel. \<exists>pc \<in> set scale. e = Note (pc @ ''4'') 1"
       "length har = 7" "\<forall>e \<in> set har. \<exists>ps \<in> set (map snd chords). e = Chord ps 1" and
    p: "piece = [TextExpression c, Part (mel @ [Note ''C4'' 1]), Part (har @ [fc]), MetronomeMark 60]"
    by blast
  from p have "parts piece = [mel @ [Note ''C4'' 1], har @ [fc]]"
    "melody_of piece = mel @ [Note ''C4'' 1]" "harmony_of piece = har @ [fc]"
    "tempo_marks piece = [60]"
    by (simp_all add: melody_of_def harmony_of_def)
  with h show ?thesis by blast
qed

lemma scales_root:
  assumes "S \<in> set (keys scales)" "map_of scales S = Some scale"
  shows "scale \<noteq> [] \<and> hd scale = ''C''"
  using scales_lookup [OF assms(1)] assms(2) by auto

lemma create_melody_total:
  assumes ok: "randbelow_ok ext" and k: "S \<in> set (keys scales)"
  shows "\<exists>mel scale. fst (create_melody ext S n w) = Inr mel \<and> map_of scales S = Some scale \<and>
           length mel = n \<and> (\<forall>e \<in> set mel. \<exists>pc \<in> set scale. e = Note (pc @ ''4'') 1)"
proof -
  from scales_lookup [OF k] obtain scale where
    sc: "getitem_tbl scales S = Inr scale" "scale \<noteq> []" by blast
  from create_melody_loop_total [OF ok sc(2), of n "[]" w] obtain mel g where
    m: "create_melody_loop ext scale n [] w = (Inr mel, w\<lparr>rng := g\<rparr>)" by blast
  have cm: "create_melody ext S n w = (Inr mel, w\<lparr>rng := g\<rparr>)"
    unfolding create_melody_def using sc(1) m by (simp add: bindE_def lift_def)
  from create_melody_Inr [OF cm] cm show ?thesis by auto
qed

text \<open>
  C3, as the code has it: the encoder takes no duration. For every scale of the table
  and every count \<open>n\<close>, \<^verbatim>\<open>create_melody\<close> returns \<open>n\<close> notes of one beat whose pitch classes
  come from the scale, and the final note built for the scale is its first pitch class.
  The encoder always asks for seven notes and appends the final one: whenever it builds
  its piece, whatever the state holds, the melody has exactly eight one-beat notes drawn
  from the selected scale and ends on that scale's first pitch class.
\<close>

theorem C3_melody_eight_notes:
  "(randbelow_ok ext \<and> S \<in> set (keys scales) \<longrightarrow>
      (\<exists>mel scale. fst (create_melody ext S n w) = Inr mel \<and> map_of scales S = Some scale \<and>
         length mel = n \<and>
         (\<forall>e \<in> set mel. quarterLength e = 1 \<and> (\<exists>pc \<in> set scale. e = Note (pc @ ''4'') 1)) \<and>
         final_note S = Inr (Note (hd scale @ ''4'') 1))) \<and>
   (fst (midi_converter_piece ext state w) = Inr piece \<longrightarrow>
      (\<exists>S' scale. fst (select_scale_name ext state w) = Inr S' \<and> map_of scales S' = Some scale \<and>
         length (melody_of piece) = 8 \<and>
         (\<forall>e \<in> set (melody_of piece).
            quarterLength e = 1 \<and> (\<exists>pc \<in> set scale. e = Note (pc @ ''4'') 1)) \<and>
         last (melody_of piece) = Note (hd scale @ ''4'') 1))"
proof (intro conjI impI)
  assume a: "randbelow_ok ext \<and> S \<in> set (keys scales)"
  then have ok: "randbelow_ok ext" and k: "S \<in> set (keys scales)" by auto
  from create_melody_total [OF ok k, of n w] obtain mel scale where
    m: "fst (create_melody ext S n w) = Inr mel" "map_of scales S = Some scale" "length mel = n"
       "\<forall>e \<in> set mel. \<exists>pc \<in> set scale. e = Note (pc @ ''4'') 1" by blast
  from scales_root [OF k m(2)] have "hd scale = ''C''" by simp
  with final_note_table [OF k] have f: "final_note S = Inr (Note (hd scale @ ''4'') 1)" by simp
  from m(4) have "\<forall>e \<in> set mel. quarterLength e = 1 \<and> (\<exists>pc \<in> set scale. e = Note (pc @ ''4'') 1)"
    by auto
  with m f show "\<exists>mel scale. fst (create_melody ext S n w) = Inr mel \<and> map_of scales S = Some scale \<and>
         length mel = n \<and>
         (\<forall>e \<in> set mel. quarterLength e = 1 \<and> (\<exists>pc \<in> set scale. e = Note (pc @ ''4'') 1)) \<and>
         final_note S = Inr (Note (hd scale @ ''4'') 1)"
    by blast
next
  assume "fst (midi_converter_piece ext state w) = Inr piece"
  from piece_tracks [OF this] obtain S' scale mel har fc where
    h: "fst (select_scale_name ext state w) = Inr S'" "S' \<in> set (keys scales)"
       "map_of scales S' = Some scale" "length mel = 7"
       "\<forall>e \<in> set mel. \<exists>pc \<in> set scale. e = Note (pc @ ''4'') 1"
       "melody_of piece = mel @ [Note ''C4'' 1]"
    by blast
  from scales_root [OF h(2,3)] have r: "scale \<noteq> []" "hd scale = ''C''" by auto
  then have "''C'' \<in> set scale" by (cases scale) auto
  with h(5) have "\<forall>e \<in> set (mel @ [Note ''C4'' 1]).
       quarterLength e = 1 \<and> (\<exists>pc \<in> set scale. e = Note (pc @ ''4'') 1)"
    by auto
  with h r show "\<exists>S' scale. fst (select_scale_name ext state w) = Inr S' \<and> map_of scales S' = Some scale \<and>
         length (melody_of piece) = 8 \<and>
         (\<forall>e \<in> set (melody_of piece).
            quarterLength e = 1 \<and> (\<exists>pc \<in> set scale. e = Note (pc @ ''4'') 1)) \<and>
         last (melody_of piece) = Note (hd scale @ ''4'') 1"
    by (intro exI [of _ S'] exI [of _ scale]) simp
qed

theorem C3_melody_eight_notes_witness:
  "randbelow_ok test_ext \<and> ''C dorian'' \<in> set (keys scales) \<and>
   (\<exists>mel scale. fst (create_melody test_ext ''C dorian'' 3 (test_world 0)) = Inr mel \<and>
      map_of scales ''C dorian'' = Some scale \<and> length mel = 3 \<and>
      (\<forall>e \<in> set mel. quarterLength e = 1 \<and> (\<exists>pc \<in> set scale. e = Note (pc @ ''4'') 1)) \<and>
      final_note ''C dorian'' = Inr (Note (hd scale @ ''4'') 1)) \<and>
   fst (midi_converter_piece test_ext (encoder_state ''Create a happy piece in C minor'') (test_world 0)) =
     Inr c_minor_piece \<and>
   (\<exists>S' scale.
      fst (select_scale_name test_ext (encoder_state ''Create a happy piece in C minor'') (test_world 0)) =
        Inr S' \<and> map_of scales S' = Some scale \<and>
      length (melody_of c_minor_piece) = 8 \<and>
      (\<forall>e \<in> set (melody_of c_minor_piece).
         quarterLength e = 1 \<and> (\<exists>pc \<in> set scale. e = Note (pc @ ''4'') 1)) \<and>
      last (melody_of c_minor_piece) = Note (hd scale @ ''4'') 1)"
proof -
  have 1: "randbelow_ok test_ext" by (rule randbelow_ok_test_ext)
  have 2: "''C dorian'' \<in> set (keys scales)" by code_simp
  have 3: "fst (midi_converter_piece test_ext (encoder_state ''Create a happy piece in C minor'') (test_world 0)) =
     Inr c_minor_piece"
    by code_simp
  note t = C3_melody_eight_notes [where ext = test_ext and S = "''C dorian''" and n = 3
      and w = "test_world 0" and state = "encoder_state ''Create a happy piece in C minor''"
      and piece = c_minor_piece]
  from t 1 2 3 show ?thesis by blast
qed

theorem C3_counterexample:
  "((encoder_state ''Create a happy piece in C minor'')(''duration'' \<mapsto> PyInt 4)) ''duration'' =
     Some (PyInt 4) \<and>
   melody_length (fst (midi_converter_piece test_ext
     ((encoder_state ''Create a happy piece in C minor'')(''duration'' \<mapsto> PyInt 4)) (test_world 0))) =
     Inr 8 \<and>
   melody_length (fst (midi_converter_piece test_ext
     ((encoder_state ''Create a happy piece in C minor'')(''duration'' \<mapsto> PyInt 4)) (test_world 0))) \<noteq>
     Inr 4"
  by code_simp

lemma piece_ignores_key:
  assumes "''composition'' \<noteq> k" "''musician_input'' \<noteq> k"
  shows "midi_converter_piece ext (state(k := x)) = midi_converter_piece ext state"
  using assms by (simp add: midi_converter_piece_def select_scale_name_def getitem_def)

text \<open>
  C5, as the code has it: the encoder takes no duration. Whenever it builds its piece,
  the piece has two tracks, the melody and the harmony, of eight events each, every
  event one beat long; a \<^verbatim>\<open>duration\<close> held by the state changes nothing.
\<close>

theorem C5_tracks_eight_events:
  "(fst (midi_converter_piece ext state w) = Inr piece \<longrightarrow>
      parts piece = [melody_of piece, harmony_of piece] \<and>
      length (melody_of piece) = 8 \<and> length (harmony_of piece) = 8 \<and>
      (\<forall>e \<in> set (melody_of piece) \<union> set (harmony_of piece). quarterLength e = 1)) \<and>
   midi_converter_piece ext (state(''duration'' := d)) w = midi_converter_piece ext state w"
proof (intro conjI impI)
  assume "fst (midi_converter_piece ext state w) = Inr piece"
  from piece_tracks [OF this] obtain S scale mel har fc where
    h: "S \<in> set (keys scales)" "final_chord S = Inr fc"
       "length mel = 7" "\<forall>e \<in> set mel. \<exists>pc \<in> set scale. e = Note (pc @ ''4'') 1"
       "length har = 7" "\<forall>e \<in> set har. \<exists>ps \<in> set (map snd chords). e = Chord ps 1"
       "parts piece = [mel @ [Note ''C4'' 1], har @ [fc]]"
       "melody_of piece = mel @ [Note ''C4'' 1]" "harmony_of piece = har @ [fc]"
    by blast
  from final_chord_cases [OF h(1,2)] have fc: "quarterLength fc = 1" by auto
  from h show "parts piece = [melody_of piece, harmony_of piece]" by simp
  from h show "length (melody_of piece) = 8" by simp
  from h show "length (harmony_of piece) = 8" by simp
  from h(4) have m: "\<forall>e \<in> set mel. quarterLength e = 1" by auto
  from h(6) have a: "\<forall>e \<in> set har. quarterLength e = 1" by auto
  from m a fc h(8,9) show "\<forall>e \<in> set (melody_of piece) \<union> set (harmony_of piece). quarterLength e = 1"
    by auto
next
  show "midi_converter_piece ext (state(''duration'' := d)) w = midi_converter_piece ext state w"
    by (simp add: piece_ignores_key)
qed

theorem C5_tracks_eight_events_witness:
  "fst (midi_converter_piece test_ext (encoder_state ''Create a happy piece in C minor'') (test_world 0)) =
     Inr c_minor_piece \<and>
   parts c_minor_piece = [melody_of c_minor_piece, harmony_of c_minor_piece] \<and>
   length (melody_of c_minor_piece) = 8 \<and> length (harmony_of c_minor_piece) = 8 \<and>
   list_all (\<lambda>e. quarterLength e = 1) (melody_of c_minor_piece @ harmony_of c_minor_piece) \<and>
   midi_converter_piece test_ext
     ((encoder_state ''Create a happy piece in C minor'')(''duration'' := Some (PyInt 16))) (test_world 0) =
   midi_converter_piece test_ext (encoder_state ''Create a happy piece in C minor'') (test_world 0)"
proof -
  have 1: "fst (midi_converter_piece test_ext (encoder_state ''Create a happy piece in C minor'') (test_world 0)) =
     Inr c_minor_piece"
    by code_simp
  note t = C5_tracks_eight_events [where ext = test_ext
      and state = "encoder_state ''Create a happy piece in C minor''"
      and w = "test_world 0" and piece = c_minor_piece and d = "Some (PyInt 16)"]
  from t 1 show ?thesis by (simp add: list_all_iff)
qed

theorem C5_counterexample:
  "((encoder_state ''Create a happy piece in C minor'')(''duration'' \<mapsto> PyInt 16)) ''duration'' =
     Some (PyInt 16) \<and>
   harmony_length (fst (midi_converter_piece test_ext
     ((encoder_state ''Create a happy piece in C minor'')(''duration'' \<mapsto> PyInt 16)) (test_world 0))) =
     Inr 8 \<and>
   melody_length (fst (midi_converter_piece test_ext
     ((encoder_state ''Create a happy piece in C minor'')(''duration'' \<mapsto> PyInt 16)) (test_world 0))) =
     Inr 8 \<and>
   harmony_length (fst (midi_converter_piece test_ext
     ((encoder_state ''Create a happy piece in C minor'')(''duration'' \<mapsto> PyInt 16)) (test_world 0))) \<noteq>
     Inr 16"
  by code_simp

text \<open>
  C6, as the code has it: the encoder takes no tempo. Whenever it builds its piece, the
  piece carries exactly one tempo mark, of 60 beats a minute; a \<^verbatim>\<open>tempo\<close> held by the
  state changes nothing.
\<close>

theorem C6_tempo_sixty:
  "(fst (midi_converter_piece ext state w) = Inr piece \<longrightarrow> tempo_marks piece = [60]) \<and>
   midi_converter_piece ext (state(''tempo'' := t)) w = midi_converter_piece ext state w"
proof (intro conjI impI)
  assume "fst (midi_converter_piece ext state w) = Inr piece"
  from piece_tracks [OF this] show "tempo_marks piece = [60]" by blast
next
  show "midi_converter_piece ext (state(''tempo'' := t)) w = midi_converter_piece ext state w"
    by (simp add: piece_ignores_key)
qed

theorem C6_tempo_sixty_witness:
  "fst (midi_converter_piece test_ext (encoder_state ''Create a happy piece in C minor'') (test_world 0)) =
     Inr c_minor_piece \<and>
   tempo_marks c_minor_piece = [60] \<and>
   midi_converter_piece test_ext
     ((encoder_state ''Create a happy piece in C minor'')(''tempo'' := Some (PyInt 120))) (test_world 0) =
   midi_converter_piece test_ext (encoder_state ''Create a happy piece in C minor'') (test_world 0)"
proof -
  have 1: "fst (midi_converter_piece test_ext (encoder_state ''Create a happy piece in C minor'') (test_world 0)) =
     Inr c_minor_piece"
    by code_simp
  note t = C6_tempo_sixty [where ext = test_ext
      and state = "encoder_state ''Create a happy piece in C minor''"
      and w = "test_world 0" and piece = c_minor_piece and t = "Some (PyInt 120)"]
  from t 1 show ?thesis by blast
qed

theorem C6_counterexample:
  "((encoder_state ''Create a happy piece in C minor'')(''tempo'' \<mapsto> PyInt 120)) ''tempo'' =
     Some (PyInt 120) \<and>
   tempo_of (fst (midi_converter_piece test_ext
     ((encoder_state ''Create a happy piece in C minor'')(''tempo'' \<mapsto> PyInt 120)) (test_world 0))) =
     Inr [60] \<and>
   tempo_of (fst (midi_converter_piece test_ext
     ((encoder_state ''Create a happy piece in C minor'')(''tempo'' \<mapsto> PyInt 120)) (test_world 0))) \<noteq>
     Inr [120]"
  by code_simp

section \<open>Scale selection\<close>

lemma select_scale_name_eq:
  assumes "state ''musician_input'' = Some (PyStr s)"
  shows "select_scale_name ext state w =
           (if sublist ''minor'' (str_lower s) then (Inr ''C minor'', w)
            else if sublist ''major'' (str_lower s) then (Inr ''C major'', w)
            else choice ext (keys scales) w)"
  using assms
  by (simp add: select_scale_name_def bindE_def lift_def getitem_def lower_def ret_def
      str_contains_sublist)

lemma choice_scales:
  assumes "randbelow_ok ext"
  shows "\<exists>i g. i < 11 \<and> randbelow ext (rng w) 11 = (i, g) \<and>
           choice ext (keys scales) w = (Inr (keys scales ! i), w\<lparr>rng := g\<rparr>)"
proof -
  have l: "length (keys scales) = 11" by (simp add: keys_scales)
  obtain i g where r: "randbelow ext (rng w) 11 = (i, g)"
    by (cases "randbelow ext (rng w) 11")
  from assms have "fst (randbelow ext (rng w) 11) < 11"
    by (simp add: randbelow_ok_def)
  with r have i: "i < 11" by simp
  have "keys scales \<noteq> []" by (simp add: keys_scales)
  with r i l have "choice ext (keys scales) w = (Inr (keys scales ! i), w\<lparr>rng := g\<rparr>)"
    by (simp add: choice_def index_def)
  with r i show ?thesis by blast
qed

lemma lower_c_minor:
  "sublist ''minor'' (str_lower ''Create a happy piece in C minor'')"
  by code_simp

lemma final_chord_c_minor: "final_chord ''C minor'' = Inr (Chord [''C4'', ''Eb4'', ''G4''] 1)"
  by code_simp

text \<open>
  C4: the scale selection lower-cases \<^verbatim>\<open>musician_input\<close> and tests it for the substring
  \<^verbatim>\<open>minor\<close>, then for \<^verbatim>\<open>major\<close>; the first gives \<^verbatim>\<open>C minor\<close>, the second \<^verbatim>\<open>C major\<close>, and
  otherwise \<^verbatim>\<open>random.choice\<close> picks among all eleven keys of the scale table. For the
  input \<^verbatim>\<open>Create a happy piece in C minor\<close> the scale is \<^verbatim>\<open>C minor\<close> without any draw, and the
  melody of the piece ends on \<^verbatim>\<open>C\<close>.
\<close>

theorem C4_scale_selection:
  "(str_contains sub s \<longleftrightarrow> sublist sub s) \<and>
   (state ''musician_input'' = Some (PyStr s) \<longrightarrow>
      select_scale_name ext state w =
        (if str_contains ''minor'' (str_lower s) then (Inr ''C minor'', w)
         else if str_contains ''major'' (str_lower s) then (Inr ''C major'', w)
         else choice ext (keys scales) w)) \<and>
   keys scales =
     [''C major'', ''C minor'', ''C harmonic minor'', ''C melodic minor'', ''C dorian'',
      ''C phrygian'', ''C lydian'', ''C mixolydian'', ''C locrian'', ''C whole tone'',
      ''C diminished''] \<and>
   (randbelow_ok ext \<longrightarrow>
      (\<exists>i g. i < 11 \<and> randbelow ext (rng w) 11 = (i, g) \<and>
         choice ext (keys scales) w = (Inr (keys scales ! i), w\<lparr>rng := g\<rparr>))) \<and>
   (state ''musician_input'' = Some (PyStr ''Create a happy piece in C minor'') \<longrightarrow>
      select_scale_name ext state w = (Inr ''C minor'', w) \<and>
      (randbelow_ok ext \<and> state ''composition'' = Some c \<longrightarrow>
         (\<exists>piece. fst (midi_converter_piece ext state w) = Inr piece \<and>
            length (melody_of piece) = 8 \<and> last (melody_of piece) = Note ''C4'' 1)))"
proof (intro conjI impI)
  show "str_contains sub s \<longleftrightarrow> sublist sub s" by (rule str_contains_sublist)
next
  assume "state ''musician_input'' = Some (PyStr s)"
  from select_scale_name_eq [where state = state and ext = ext and w = w, OF this]
  show "select_scale_name ext state w =
        (if str_contains ''minor'' (str_lower s) then (Inr ''C minor'', w)
         else if str_contains ''major'' (str_lower s) then (Inr ''C major'', w)
         else choice ext (keys scales) w)"
    by (simp add: str_contains_sublist)
next
  show "keys scales =
     [''C major'', ''C minor'', ''C harmonic minor'', ''C melodic minor'', ''C dorian'',
      ''C phrygian'', ''C lydian'', ''C mixolydian'', ''C locrian'', ''C whole tone'',
      ''C diminished'']"
    by (rule keys_scales)
next
  assume "randbelow_ok ext"
  then show "\<exists>i g. i < 11 \<and> randbelow ext (rng w) 11 = (i, g) \<and>
         choice ext (keys scales) w = (Inr (keys scales ! i), w\<lparr>rng := g\<rparr>)"
    by (rule choice_scales)
next
  assume "state ''musician_input'' = Some (PyStr ''Create a happy piece in C minor'')"
  from select_scale_name_eq [where state = state and ext = ext and w = w, OF this] lower_c_minor
  show "select_scale_name ext state w = (Inr ''C minor'', w)" by simp
next
  assume m: "state ''musician_input'' = Some (PyStr ''Create a happy piece in C minor'')"
    and a: "randbelow_ok ext \<and> state ''composition'' = Some c"
  from select_scale_name_eq [where state = state and ext = ext and w = w, OF m] lower_c_minor
  have s: "fst (select_scale_name ext state w) = Inr ''C minor''" by simp
  from a have ok: "randbelow_ok ext" and c: "state ''composition'' = Some c" by auto
  from encoder_returns [OF ok c s final_chord_c_minor] obtain mel har where
    p: "length mel = 7" "fst (midi_converter_piece ext state w) =
           Inr [TextExpression c, Part (mel @ [Note ''C4'' 1]),
                Part (har @ [Chord [''C4'', ''Eb4'', ''G4''] 1]), MetronomeMark 60]"
    by blast
  have "melody_of [TextExpression c, Part (mel @ [Note ''C4'' 1]),
                Part (har @ [Chord [''C4'', ''Eb4'', ''G4''] 1]), MetronomeMark 60] =
        mel @ [Note ''C4'' 1]"
    by (simp add: melody_of_def)
  with p show "\<exists>piece. fst (midi_converter_piece ext state w) = Inr piece \<and>
            length (melody_of piece) = 8 \<and> last (melody_of piece) = Note ''C4'' 1"
    by auto
qed

theorem C4_scale_selection_witness:
  "encoder_state ''Create a happy piece in C minor'' ''musician_input'' =
     Some (PyStr ''Create a happy piece in C minor'') \<and>
   randbelow_ok test_ext \<and>
   encoder_state ''Create a happy piece in C minor'' ''composition'' = Some (PyStr ''X:1'') \<and>
   select_scale_name test_ext (encoder_state ''Create a happy piece in C minor'') (test_world 0) =
     (Inr ''C minor'', test_world 0) \<and>
   (\<exists>piece. fst (midi_converter_piece test_ext (encoder_state ''Create a happy piece in C minor'')
                  (test_world 0)) = Inr piece \<and>
      length (melody_of piece) = 8 \<and> last (melody_of piece) = Note ''C4'' 1) \<and>
   select_scale_name test_ext (encoder_state ''A slow MINOR lament'') (test_world 0) =
     (Inr ''C minor'', test_world 0) \<and>
   select_scale_name test_ext (encoder_state ''Create a happy piano piece in C major'') (test_world 0) =
     (Inr ''C major'', test_world 0) \<and>
   select_scale_name test_ext (encoder_state ''Create a happy piece'') (test_world 4) =
     choice test_ext (keys scales) (test_world 4) \<and>
   (\<exists>i g. i < 11 \<and> randbelow test_ext (rng (test_world 4)) 11 = (i, g) \<and>
      choice test_ext (keys scales) (test_world 4) = (Inr (keys scales ! i), test_world 4\<lparr>rng := g\<rparr>))"
proof -
  have 1: "encoder_state ''Create a happy piece in C minor'' ''musician_input'' =
     Some (PyStr ''Create a happy piece in C minor'')" by code_simp
  have 2: "randbelow_ok test_ext" by (rule randbelow_ok_test_ext)
  have 3: "encoder_state ''Create a happy piece in C minor'' ''composition'' = Some (PyStr ''X:1'')"
    by code_simp
  note t1 = C4_scale_selection [where ext = test_ext and w = "test_world 0"
      and state = "encoder_state ''Create a happy piece in C minor''"
      and s = "''Create a happy piece in C minor''" and c = "PyStr ''X:1''"]
  have 4: "encoder_state ''A slow MINOR lament'' ''musician_input'' = Some (PyStr ''A slow MINOR lament'')"
    by code_simp
  have 5: "str_contains ''minor'' (str_lower ''A slow MINOR lament'')" by code_simp
  note t2 = C4_scale_selection [where ext = test_ext and w = "test_world 0"
      and state = "encoder_state ''A slow MINOR lament''" and s = "''A slow MINOR lament''"]
  have 6: "encoder_state ''Create a happy piano piece in C major'' ''musician_input'' =
     Some (PyStr ''Create a happy piano piece in C major'')"
    by code_simp
  have 7: "\<not> str_contains ''minor'' (str_lower ''Create a happy piano piece in C major'')"
    "str_contains ''major'' (str_lower ''Create a happy piano piece in C major'')"
    by code_simp+
  note t3 = C4_scale_selection [where ext = test_ext and w = "test_world 0"
      and state = "encoder_state ''Create a happy piano piece in C major''"
      and s = "''Create a happy piano piece in C major''"]
  have 8: "encoder_state ''Create a happy piece'' ''musician_input'' = Some (PyStr ''Create a happy piece'')"
    by code_simp
  have 9: "\<not> str_contains ''minor'' (str_lower ''Create a happy piece'')"
    "\<not> str_contains ''major'' (str_lower ''Create a happy piece'')"
    by code_simp+
  note t4 = C4_scale_selection [where ext = test_ext and w = "test_world 4"
      and state = "encoder_state ''Create a happy piece''" and s = "''Create a happy piece''"]
  from t1 1 2 3 have a: "select_scale_name test_ext (encoder_state ''Create a happy piece in C minor'') (test_world 0) =
     (Inr ''C minor'', test_world 0)"
    "\<exists>piece. fst (midi_converter_piece test_ext (encoder_state ''Create a happy piece in C minor'')
                  (test_world 0)) = Inr piece \<and>
      length (melody_of piece) = 8 \<and> last (melody_of piece) = Note ''C4'' 1"
    by blast+
  from t2 4 5 have b: "select_scale_name test_ext (encoder_state ''A slow MINOR lament'') (test_world 0) =
     (Inr ''C minor'', test_world 0)"
    by simp
  from t3 6 7 have c: "select_scale_name test_ext (encoder_state ''Create a happy piano piece in C major'') (test_world 0) =
     (Inr ''C major'', test_world 0)"
    by simp
  from t4 8 9 have d: "select_scale_name test_ext (encoder_state ''Create a happy piece'') (test_world 4) =
     choice test_ext (keys scales) (test_world 4)"
    by simp
  from t4 2 have e: "\<exists>i g. i < 11 \<and> randbelow test_ext (rng (test_world 4)) 11 = (i, g) \<and>
      choice test_ext (keys scales) (test_world 4) = (Inr (keys scales ! i), test_world 4\<lparr>rng := g\<rparr>)"
    by blast
  from 1 2 3 a b c d e show ?thesis by blast
qed

section \<open>The tables are rooted at C\<close>

lemma tables_rooted_at_C:
  "(\<forall>(name, pcs) \<in> set scales. take 2 name = ''C '' \<and> hd pcs = ''C'') \<and>
   (\<forall>(name, ps) \<in> set chords. take 2 name = ''C '' \<and> hd ps = ''C4'')"
  by code_simp

lemma lower_d_major:
  "\<not> sublist ''minor'' (str_lower ''Create a happy piece in D major'')"
  "sublist ''major'' (str_lower ''Create a happy piece in D major'')"
  by code_simp+

text \<open>
  C9: every scale name and every chord name of the tables starts with \<^verbatim>\<open>C\<close>, every scale
  starts on the pitch class \<^verbatim>\<open>C\<close> and every chord on \<^verbatim>\<open>C4\<close>. The scale selection only
  returns keys of the scale table, so the final note is always \<^verbatim>\<open>C4\<close>, also for an input
  that names another key; and in every piece the encoder builds, the melody ends on
  \<^verbatim>\<open>C4\<close> and the last chord of the harmony starts on \<^verbatim>\<open>C4\<close>.
\<close>

theorem C9_everything_rooted_at_C:
  "(\<forall>(name, pcs) \<in> set scales. take 2 name = ''C '' \<and> hd pcs = ''C'') \<and>
   (\<forall>(name, ps) \<in> set chords. take 2 name = ''C '' \<and> hd ps = ''C4'') \<and>
   (fst (select_scale_name ext state w) = Inr S \<longrightarrow>
      S \<in> set (keys scales) \<and> take 2 S = ''C '' \<and> final_note S = Inr (Note ''C4'' 1)) \<and>
   (fst (midi_converter_piece ext state w) = Inr piece \<longrightarrow>
      last (melody_of piece) = Note ''C4'' 1 \<and>
      (\<exists>ps. last (harmony_of piece) = Chord (''C4'' # ps) 1)) \<and>
   (state ''musician_input'' = Some (PyStr ''Create a happy piece in D major'') \<longrightarrow>
      select_scale_name ext state w = (Inr ''C major'', w))"
proof (intro conjI impI)
  show "\<forall>(name, pcs) \<in> set scales. take 2 name = ''C '' \<and> hd pcs = ''C''"
    using tables_rooted_at_C by blast
  show "\<forall>(name, ps) \<in> set chords. take 2 name = ''C '' \<and> hd ps = ''C4''"
    using tables_rooted_at_C by blast
next
  assume "fst (select_scale_name ext state w) = Inr S"
  then obtain w1 where "select_scale_name ext state w = (Inr S, w1)"
    by (cases "select_scale_name ext state w") auto
  from select_scale_name_in_table [OF this] show k: "S \<in> set (keys scales)" .
  then obtain pcs where "(S, pcs) \<in> set scales" by (auto simp: keys_def)
  with tables_rooted_at_C show "take 2 S = ''C ''" by blast
  from final_note_table [OF k] show "final_note S = Inr (Note ''C4'' 1)" .
next
  assume p: "fst (midi_converter_piece ext state w) = Inr piece"
  from piece_tracks [OF p] obtain S mel har fc where
    h: "S \<in> set (keys scales)" "final_chord S = Inr fc"
       "melody_of piece = mel @ [Note ''C4'' 1]" "harmony_of piece = har @ [fc]"
    by blast
  from h(3) show "last (melody_of piece) = Note ''C4'' 1" by simp
  from final_chord_cases [OF h(1,2)] have "\<exists>ps. fc = Chord (''C4'' # ps) 1" by auto
  with h(4) show "\<exists>ps. last (harmony_of piece) = Chord (''C4'' # ps) 1" by simp
next
  assume m: "state ''musician_input'' = Some (PyStr ''Create a happy piece in D major'')"
  from select_scale_name_eq [where state = state and ext = ext and w = w, OF m] lower_d_major
  show "select_scale_name ext state w = (Inr ''C major'', w)" by simp
qed

theorem C9_everything_rooted_at_C_witness:
  "fst (select_scale_name test_ext (encoder_state ''Create a happy piece in D major'') (test_world 0)) =
     Inr ''C major'' \<and>
   ''C major'' \<in> set (keys scales) \<and> take 2 ''C major'' = ''C '' \<and>
   final_note ''C major'' = Inr (Note ''C4'' 1) \<and>
   fst (midi_converter_piece test_ext (encoder_state ''Create a happy piece in D major'') (test_world 0)) =
     Inr c_major_piece \<and>
   last (melody_of c_major_piece) = Note ''C4'' 1 \<and>
   (\<exists>ps. last (harmony_of c_major_piece) = Chord (''C4'' # ps) 1) \<and>
   encoder_state ''Create a happy piece in D major'' ''musician_input'' =
     Some (PyStr ''Create a happy piece in D major'') \<and>
   select_scale_name test_ext (encoder_state ''Create a happy piece in D major'') (test_world 0) =
     (Inr ''C major'', test_world 0)"
proof -
  have 1: "fst (select_scale_name test_ext (encoder_state ''Create a happy piece in D major'') (test_world 0)) =
     Inr ''C major''"
    by code_simp
  have 2: "fst (midi_converter_piece test_ext (encoder_state ''Create a happy piece in D major'') (test_world 0)) =
     Inr c_major_piece"
    by code_simp
  have 3: "encoder_state ''Create a happy piece in D major'' ''musician_input'' =
     Some (PyStr ''Create a happy piece in D major'')"
    by code_simp
  note t = C9_everything_rooted_at_C [where ext = test_ext and w = "test_world 0"
      and state = "encoder_state ''Create a happy piece in D major''" and S = "''C major''"
      and piece = c_major_piece]
  from t 1 2 3 show ?thesis by blast
qed

section \<open>Dependence on the generator state\<close>

lemma rng_only_frame:
  assumes "rng_only c"
  shows "\<exists>g. snd (c w) = w\<lparr>rng := g\<rparr>"
  using assms unfolding rng_only_def by blast

lemma rng_only_same:
  assumes "rng_only c" "rng w2 = rng w"
  shows "fst (c w2) = fst (c w) \<and> rng (snd (c w2)) = rng (snd (c w))"
  using assms unfolding rng_only_def by blast

lemma rng_onlyI:
  assumes fr: "\<And>w. \<exists>g. snd (c w) = w\<lparr>rng := g\<rparr>"
    and sm: "\<And>w w2. rng w2 = rng w \<Longrightarrow>
               fst (c w2) = fst (c w) \<and> rng (snd (c w2)) = rng (snd (c w))"
  shows "rng_only c"
proof -
  have "snd (c w) = w\<lparr>rng := rng (snd (c w))\<rparr>" for w
  proof -
    from fr [of w] obtain g where g: "snd (c w) = w\<lparr>rng := g\<rparr>" by blast
    then have "rng (snd (c w)) = g" by simp
    with g show ?thesis by simp
  qed
  with sm show ?thesis unfolding rng_only_def by blast
qed

lemma rng_only_ret: "rng_only (ret x)"
  unfolding rng_only_def ret_def by simp

lemma rng_only_lift: "rng_only (lift r)"
  unfolding rng_only_def lift_def by simp

lemma rng_only_choice: "rng_only (choice ext seq)"
proof (rule rng_onlyI)
  fix w :: "'a world"
  obtain i g' where r: "randbelow ext (rng w) (length seq) = (i, g')"
    by (cases "randbelow ext (rng w) (length seq)")
  have "snd (choice ext seq w) = w\<lparr>rng := (if seq = [] then rng w else g')\<rparr>"
    using r by (simp add: choice_def)
  then show "\<exists>g. snd (choice ext seq w) = w\<lparr>rng := g\<rparr>" by blast
next
  fix w w2 :: "'a world"
  assume "rng w2 = rng w"
  then show "fst (choice ext seq w2) = fst (choice ext seq w) \<and>
        rng (snd (choice ext seq w2)) = rng (snd (choice ext seq w))"
    by (simp add: choice_def split: prod.splits)
qed

lemma rng_only_if: "rng_only a \<Longrightarrow> rng_only b \<Longrightarrow> rng_only (if p then a else b)"
  by simp

lemma rng_only_bindE:
  assumes c: "rng_only c" and f: "\<And>x. rng_only (f x)"
  shows "rng_only (bindE c f)"
proof (rule rng_onlyI)
  fix w
  obtain r w1 where cw: "c w = (r, w1)" by (cases "c w")
  from rng_only_frame [OF c, of w] cw obtain g1 where w1: "w1 = w\<lparr>rng := g1\<rparr>" by auto
  show "\<exists>g. snd (bindE c f w) = w\<lparr>rng := g\<rparr>"
  proof (cases r)
    case (Inl e)
    with cw w1 have "snd (bindE c f w) = w\<lparr>rng := g1\<rparr>"
      by (simp add: bindE_def)
    then show ?thesis by blast
  next
    case (Inr x)
    from rng_only_frame [OF f, of x w1] obtain g2 where
      "snd (f x w1) = w1\<lparr>rng := g2\<rparr>" by blast
    with w1 have "snd (f x w1) = w\<lparr>rng := g2\<rparr>" by simp
    with Inr cw have "snd (bindE c f w) = w\<lparr>rng := g2\<rparr>"
      by (simp add: bindE_def)
    then show ?thesis by blast
  qed
next
  fix w w2 :: "'a world"
  assume e: "rng w2 = rng w"
  obtain r w1 where cw: "c w = (r, w1)" by (cases "c w")
  obtain r2 w3 where cw2: "c w2 = (r2, w3)" by (cases "c w2")
  from rng_only_same [OF c e] cw cw2 have ce: "r2 = r" "rng w3 = rng w1"
    by simp_all
  show "fst (bindE c f w2) = fst (bindE c f w) \<and> rng (snd (bindE c f w2)) = rng (snd (bindE c f w))"
  proof (cases r)
    case (Inl e)
    with ce cw cw2 show ?thesis by (simp add: bindE_def)
  next
    case (Inr x)
    from rng_only_same [OF f ce(2), of x]
    have "fst (f x w3) = fst (f x w1)" "rng (snd (f x w3)) = rng (snd (f x w1))"
      by simp_all
    with Inr ce cw cw2 show ?thesis by (simp add: bindE_def)
  qed
qed

lemma rng_only_create_melody_loop: "rng_only (create_melody_loop ext scale n acc)"
  by (induction n arbitrary: acc) (simp_all add: rng_only_ret rng_only_bindE rng_only_choice)

lemma rng_only_create_chord_progression_loop: "rng_only (create_chord_progression_loop ext n acc)"
  by (induction n arbitrary: acc)
    (simp_all add: rng_only_ret rng_only_bindE rng_only_choice rng_only_lift)

lemma rng_only_select_scale_name: "rng_only (select_scale_name ext state)"
  unfolding select_scale_name_def
  by (intro rng_only_bindE rng_only_lift rng_only_if rng_only_ret rng_only_choice)

lemma rng_only_piece: "rng_only (midi_converter_piece ext state)"
  unfolding midi_converter_piece_def create_melody_def create_chord_progression_def
  by (intro rng_only_bindE rng_only_lift rng_only_ret rng_only_select_scale_name
      rng_only_create_melody_loop rng_only_create_chord_progression_loop)

lemma output_file_midi_converter:
  "output_file (midi_converter ext state w) =
     (case fst (midi_converter_piece ext state w) of Inl e \<Rightarrow> Inl e
      | Inr piece \<Rightarrow> Inr (Some (write_midi ext piece)))"
proof (cases "midi_converter_piece ext state w")
  case (Pair r w1)
  show ?thesis
  proof (cases r)
    case (Inl e)
    with Pair midi_converter_raises [of ext state w e w1] show ?thesis
      by (simp add: output_file_def)
  next
    case (Inr piece)
    with Pair midi_converter_of_piece [of ext state w piece w1] show ?thesis
      by (simp add: output_file_def)
  qed
qed

text \<open>
  C7: the seed is the state of the generator. Two encoder runs on the same state that
  start from the same generator state end alike: both raise the same exception, or both
  write the same bytes, the serialisation of the same piece, to the file they return,
  whatever else differs between the two runs (the files that exist, hence the temporary
  name, and the requests issued before).
\<close>

theorem C7_same_seed_same_file:
  "(rng wa = rng wb \<longrightarrow>
      output_file (midi_converter ext state wa) = output_file (midi_converter ext state wb)) \<and>
   (fst (midi_converter_piece ext state wa) = Inr piece \<longrightarrow>
      output_file (midi_converter ext state wa) = Inr (Some (write_midi ext piece)))"
proof (intro conjI impI)
  assume e: "rng wa = rng wb"
  from rng_only_same [where c = "midi_converter_piece ext state", OF rng_only_piece e]
  have "fst (midi_converter_piece ext state wa) = fst (midi_converter_piece ext state wb)"
    by simp
  then show "output_file (midi_converter ext state wa) = output_file (midi_converter ext state wb)"
    by (simp add: output_file_midi_converter)
next
  assume "fst (midi_converter_piece ext state wa) = Inr piece"
  then show "output_file (midi_converter ext state wa) = Inr (Some (write_midi ext piece))"
    by (simp add: output_file_midi_converter)
qed

theorem C7_same_seed_same_file_witness:
  "rng (test_world 0) = rng (busy_world 0) \<and>
   output_file (midi_converter test_ext (encoder_state ''Create a happy piece'') (test_world 0)) =
   output_file (midi_converter test_ext (encoder_state ''Create a happy piece'') (busy_world 0)) \<and>
   fst (midi_converter test_ext (encoder_state ''Create a happy piece'') (test_world 0)) =
     Inr [(''midi_file'', PyStr ''/tmp/tmpa.mid'')] \<and>
   fst (midi_converter test_ext (encoder_state ''Create a happy piece'') (busy_world 0)) =
     Inr [(''midi_file'', PyStr ''/tmp/tmpb.mid'')] \<and>
   fst (midi_converter_piece test_ext (encoder_state ''Create a happy piece in C minor'') (test_world 0)) =
     Inr c_minor_piece \<and>
   output_file (midi_converter test_ext (encoder_state ''Create a happy piece in C minor'') (test_world 0)) =
     Inr (Some (write_midi test_ext c_minor_piece)) \<and>
   write_midi test_ext c_minor_piece = [0, 8, 8, 60]"
proof -
  have 1: "rng (test_world 0) = rng (busy_world 0)" by code_simp
  have 2: "fst (midi_converter test_ext (encoder_state ''Create a happy piece'') (test_world 0)) =
     Inr [(''midi_file'', PyStr ''/tmp/tmpa.mid'')]" by code_simp
  have 3: "fst (midi_converter test_ext (encoder_state ''Create a happy piece'') (busy_world 0)) =
     Inr [(''midi_file'', PyStr ''/tmp/tmpb.mid'')]" by code_simp
  have 4: "fst (midi_converter_piece test_ext (encoder_state ''Create a happy piece in C minor'') (test_world 0)) =
     Inr c_minor_piece" by code_simp
  have 5: "write_midi test_ext c_minor_piece = [0, 8, 8, 60]" by code_simp
  note t1 = C7_same_seed_same_file [where ext = test_ext and wa = "test_world 0"
      and wb = "busy_world 0" and state = "encoder_state ''Create a happy piece''"]
  note t2 = C7_same_seed_same_file [where ext = test_ext and wa = "test_world 0"
      and state = "encoder_state ''Create a happy piece in C minor''" and piece = c_minor_piece]
  from t1 t2 1 2 3 4 5 show ?thesis by blast
qed

section \<open>Missing keys in a run of the workflow\<close>

lemma llm_replies_test_ext: "llm_replies test_ext"
  by (simp add: llm_replies_def test_ext_def)

lemma chain_invoke_run:
  "\<exists>r. chain_invoke ext template vars w =
          (r, w\<lparr>llm_calls := llm_calls w @ [(template, vars)]\<rparr>) \<and>
        (llm_replies ext \<longrightarrow> (\<exists>x. r = Inr x))"
proof -
  have "llm_replies ext \<Longrightarrow> \<exists>x. llm_invoke ext (llm_calls w) template vars = Inr x"
    unfolding llm_replies_def by blast
  then show ?thesis
    by (auto simp: chain_invoke_def split: sum.splits)
qed

lemma generative_body:
  "\<exists>r call. bindE (chain_invoke ext template vars) (\<lambda>x. ret [(key, PyStr x)]) w =
          (map_sum id (\<lambda>x. [(key, PyStr x)]) r, w\<lparr>llm_calls := llm_calls w @ [call]\<rparr>) \<and>
        (llm_replies ext \<longrightarrow> (\<exists>x. r = Inr x))"
proof -
  from chain_invoke_run [of ext template vars w] obtain r where
    c: "chain_invoke ext template vars w = (r, w\<lparr>llm_calls := llm_calls w @ [(template, vars)]\<rparr>)"
    and l: "llm_replies ext \<longrightarrow> (\<exists>x. r = Inr x)" by blast
  from c have "bindE (chain_invoke ext template vars) (\<lambda>x. ret [(key, PyStr x)]) w =
          (map_sum id (\<lambda>x. [(key, PyStr x)]) r, w\<lparr>llm_calls := llm_calls w @ [(template, vars)]\<rparr>)"
    by (cases r) (simp_all add: bindE_def ret_def)
  with l show ?thesis by blast
qed

lemma melody_generator_run:
  assumes "state ''musician_input'' = Some v"
  shows "\<exists>r call. melody_generator ext state w =
          (map_sum id (\<lambda>x. [(''melody'', PyStr x)]) r, w\<lparr>llm_calls := llm_calls w @ [call]\<rparr>) \<and>
        (llm_replies ext \<longrightarrow> (\<exists>x. r = Inr x))"
proof -
  have "melody_generator ext state w =
     bindE (chain_invoke ext
        ''Create a melody that reflects the sentiment and style of this input: {input}. Format it in music21 notation.''
        [(''input'', v)]) (\<lambda>x. ret [(''melody'', PyStr x)]) w"
    using assms by (simp add: melody_generator_def bindE_def lift_def getitem_def)
  with generative_body show ?thesis by metis
qed

lemma melody_generator_fail:
  assumes "state ''musician_input'' = None"
  shows "melody_generator ext state w = (Inl (KeyError ''musician_input''), w)"
  using assms
  by (simp add: melody_generator_def bindE_def lift_def getitem_def)

lemma harmony_creator_run:
  assumes "state ''melody'' = Some v"
  shows "\<exists>r call. harmony_creator ext state w =
          (map_sum id (\<lambda>x. [(''harmony'', PyStr x)]) r, w\<lparr>llm_calls := llm_calls w @ [call]\<rparr>) \<and>
        (llm_replies ext \<longrightarrow> (\<exists>x. r = Inr x))"
proof -
  have "harmony_creator ext state w =
     bindE (chain_invoke ext
        ''Create harmony for this melody: {melody}. Represent it as a string of chords in music21 format.''
        [(''melody'', v)]) (\<lambda>x. ret [(''harmony'', PyStr x)]) w"
    using assms by (simp add: harmony_creator_def bindE_def lift_def getitem_def)
  with generative_body show ?thesis by metis
qed

lemma rhythm_analyzer_run:
  assumes "state ''melody'' = Some v1" "state ''harmony'' = Some v2"
  shows "\<exists>r call. rhythm_analyzer ext state w =
          (map_sum id (\<lambda>x. [(''rhythm'', PyStr x)]) r, w\<lparr>llm_calls := llm_calls w @ [call]\<rparr>) \<and>
        (llm_replies ext \<longrightarrow> (\<exists>x. r = Inr x))"
proof -
  have "rhythm_analyzer ext state w =
     bindE (chain_invoke ext
        ''Analyze and suggest a rhythm for this melody and harmony: {melody}, {harmony}. Represent it as a string of durations in music21 format.''
        [(''melody'', v1), (''harmony'', v2)]) (\<lambda>x. ret [(''rhythm'', PyStr x)]) w"
    using assms by (simp add: rhythm_analyzer_def bindE_def lift_def getitem_def)
  with generative_body show ?thesis by metis
qed

lemma style_adapter_fail:
  assumes "state ''style'' = None"
  shows "style_adapter ext state w = (Inl (KeyError ''style''), w)"
  using assms
  by (simp add: style_adapter_def bindE_def lift_def getitem_def)

lemma run_nodes_step:
  assumes "f ext s w = (map_sum id (\<lambda>x. [(key, PyStr x)]) r, w1)"
  shows "run_nodes ext ((name, f) # rest) s w =
          (case r of Inl e \<Rightarrow> (Inl (name, e), w1)
           | Inr x \<Rightarrow> run_nodes ext rest (s(key \<mapsto> PyStr x)) w1)"
  using assms by (cases r) simp_all

lemma map_input_present:
  assumes "inp k = Some v" "k \<in> set state_keys"
  shows "map_input inp = Inr (inp |` set state_keys)"
  using assms by (auto simp: map_input_def)

lemma run_without_style:
  assumes mi: "state ''musician_input'' = Some v" and st: "state ''style'' = None"
  shows "\<exists>n e w'. run_nodes ext workflow state w = (Inl (n, e), w') \<and>
           n \<in> set [''melody_generator'', ''harmony_creator'', ''rhythm_analyzer'', ''style_adapter''] \<and>
           (llm_replies ext \<longrightarrow> n = ''style_adapter'' \<and> e = KeyError ''style'' \<and>
              (\<exists>c1 c2 c3. w' = w\<lparr>llm_calls := llm_calls w @ [c1, c2, c3]\<rparr>))"
proof -
  from melody_generator_run [where state = state and ext = ext and w = w, OF mi]
  obtain r1 c1 where
    1: "melody_generator ext state w =
          (map_sum id (\<lambda>x. [(''melody'', PyStr x)]) r1, w\<lparr>llm_calls := llm_calls w @ [c1]\<rparr>)"
    and l1: "llm_replies ext \<longrightarrow> (\<exists>x. r1 = Inr x)" by blast
  define w1 where "w1 = w\<lparr>llm_calls := llm_calls w @ [c1]\<rparr>"
  note n1 = run_nodes_step [where f = melody_generator and s = state and name = "''melody_generator''", OF 1]
  show ?thesis
  proof (cases r1)
    case (Inl e)
    with n1 l1 show ?thesis by (simp add: workflow_def)
  next
    case r1: (Inr x1)
    define s1 where "s1 = state(''melody'' \<mapsto> PyStr x1)"
    have "s1 ''melody'' = Some (PyStr x1)" by (simp add: s1_def)
    from harmony_creator_run [where state = s1 and ext = ext and w = w1, OF this]
    obtain r2 c2 where
      2: "harmony_creator ext s1 w1 =
            (map_sum id (\<lambda>x. [(''harmony'', PyStr x)]) r2, w1\<lparr>llm_calls := llm_calls w1 @ [c2]\<rparr>)"
      and l2: "llm_replies ext \<longrightarrow> (\<exists>x. r2 = Inr x)" by blast
    define w2 where "w2 = w1\<lparr>llm_calls := llm_calls w1 @ [c2]\<rparr>"
    note n2 = run_nodes_step [where f = harmony_creator and s = s1 and name = "''harmony_creator''", OF 2]
    show ?thesis
    proof (cases r2)
      case (Inl e)
      with n1 n2 r1 l2 show ?thesis
        by (simp add: workflow_def s1_def [symmetric] w1_def [symmetric])
    next
      case r2: (Inr x2)
      define s2 where "s2 = s1(''harmony'' \<mapsto> PyStr x2)"
      have "s2 ''melody'' = Some (PyStr x1)" "s2 ''harmony'' = Some (PyStr x2)"
        by (simp_all add: s2_def s1_def)
      from rhythm_analyzer_run [where state = s2 and ext = ext and w = w2, OF this]
      obtain r3 c3 where
        3: "rhythm_analyzer ext s2 w2 =
              (map_sum id (\<lambda>x. [(''rhythm'', PyStr x)]) r3, w2\<lparr>llm_calls := llm_calls w2 @ [c3]\<rparr>)"
        and l3: "llm_replies ext \<longrightarrow> (\<exists>x. r3 = Inr x)" by blast
      define w3 where "w3 = w2\<lparr>llm_calls := llm_calls w2 @ [c3]\<rparr>"
      note n3 = run_nodes_step [where f = rhythm_analyzer and s = s2 and name = "''rhythm_analyzer''", OF 3]
      show ?thesis
      proof (cases r3)
        case (Inl e)
        with n1 n2 n3 r1 r2 l3 show ?thesis
          by (simp add: workflow_def s1_def [symmetric] w1_def [symmetric]
              s2_def [symmetric] w2_def [symmetric])
      next
        case r3: (Inr x3)
        define s3 where "s3 = s2(''rhythm'' \<mapsto> PyStr x3)"
        from st have "s3 ''style'' = None" by (simp add: s3_def s2_def s1_def)
        from style_adapter_fail [where state = s3 and ext = ext and w = w3, OF this]
        have 4: "style_adapter ext s3 w3 = (Inl (KeyError ''style''), w3)" .
        have w3e: "w3 = w\<lparr>llm_calls := llm_calls w @ [c1, c2, c3]\<rparr>"
          by (simp add: w3_def w2_def w1_def)
        from n1 n2 n3 r1 r2 r3 4 have
          "run_nodes ext workflow state w = (Inl (''style_adapter'', KeyError ''style''), w3)"
          by (simp add: workflow_def s1_def [symmetric] w1_def [symmetric]
              s2_def [symmetric] w2_def [symmetric] s3_def [symmetric] w3_def [symmetric])
        moreover from w3e have "\<exists>c1 c2 c3. w3 = w\<lparr>llm_calls := llm_calls w @ [c1, c2, c3]\<rparr>"
          by blast
        ultimately show ?thesis by simp
      qed
    qed
  qed
qed

text \<open>
  C1, as the code has it: the engine rejects before any node only an input that holds no
  key of \<^verbatim>\<open>MusicState\<close> at all, with \<^verbatim>\<open>InvalidUpdateError\<close>. Any other missing key is met
  only by the first stage that dereferences it, which raises Python's \<^verbatim>\<open>KeyError\<close> from
  its body. Without \<^verbatim>\<open>musician_input\<close> the run fails in \<^verbatim>\<open>melody_generator\<close> before any
  request is issued. With \<^verbatim>\<open>musician_input\<close> but without \<^verbatim>\<open>style\<close> the run is not rejected
  and never completes: it fails inside one of the four generative stages, and when the
  chat model replies to the requests it fails in \<^verbatim>\<open>style_adapter\<close>, with
  \<^verbatim>\<open>KeyError\<close> on \<^verbatim>\<open>style\<close>, after three requests have been issued.
\<close>

theorem C1_missing_key_raises_in_stage:
  "((\<forall>k \<in> set state_keys. inp k = None) \<longrightarrow>
      invoke ext inp w = (Inl (''__start__'', InvalidUpdateError), w)) \<and>
   (inp ''musician_input'' = None \<and> (\<exists>k \<in> set state_keys. inp k \<noteq> None) \<longrightarrow>
      invoke ext inp w = (Inl (''melody_generator'', KeyError ''musician_input''), w)) \<and>
   (inp ''musician_input'' = Some v \<and> inp ''style'' = None \<longrightarrow>
      (\<exists>n e w'. invoke ext inp w = (Inl (n, e), w') \<and>
         n \<in> set [''melody_generator'', ''harmony_creator'', ''rhythm_analyzer'', ''style_adapter''] \<and>
         (llm_replies ext \<longrightarrow> n = ''style_adapter'' \<and> e = KeyError ''style'' \<and>
            (\<exists>c1 c2 c3. w' = w\<lparr>llm_calls := llm_calls w @ [c1, c2, c3]\<rparr>))))"
proof (intro conjI impI)
  assume "\<forall>k \<in> set state_keys. inp k = None"
  then show "invoke ext inp w = (Inl (''__start__'', InvalidUpdateError), w)"
    by (simp add: invoke_def map_input_def)
next
  assume a: "inp ''musician_input'' = None \<and> (\<exists>k \<in> set state_keys. inp k \<noteq> None)"
  then have m: "map_input inp = Inr (inp |` set state_keys)"
    by (auto simp: map_input_def)
  from a have "(inp |` set state_keys) ''musician_input'' = None"
    by (simp add: restrict_map_def)
  from melody_generator_fail [where state = "inp |` set state_keys" and ext = ext and w = w, OF this] m
  show "invoke ext inp w = (Inl (''melody_generator'', KeyError ''musician_input''), w)"
    by (simp add: invoke_def workflow_def)
next
  assume a: "inp ''musician_input'' = Some v \<and> inp ''style'' = None"
  have k: "''musician_input'' \<in> set state_keys" by (simp add: state_keys_def)
  from a map_input_present [OF _ k] have m: "map_input inp = Inr (inp |` set state_keys)"
    by blast
  from a k have mi: "(inp |` set state_keys) ''musician_input'' = Some v"
    by (simp add: restrict_map_def)
  from a have st: "(inp |` set state_keys) ''style'' = None"
    by (simp add: restrict_map_def)
  from run_without_style [where state = "inp |` set state_keys" and ext = ext and w = w, OF mi st] m
  show "\<exists>n e w'. invoke ext inp w = (Inl (n, e), w') \<and>
         n \<in> set [''melody_generator'', ''harmony_creator'', ''rhythm_analyzer'', ''style_adapter''] \<and>
         (llm_replies ext \<longrightarrow> n = ''style_adapter'' \<and> e = KeyError ''style'' \<and>
            (\<exists>c1 c2 c3. w' = w\<lparr>llm_calls := llm_calls w @ [c1, c2, c3]\<rparr>))"
    by (simp add: invoke_def)
qed

theorem C1_missing_key_raises_in_stage_witness:
  "list_all (\<lambda>k. [''scale'' \<mapsto> PyStr ''C major''] k = None) state_keys \<and>
   invoke test_ext [''scale'' \<mapsto> PyStr ''C major''] (test_world 0) =
     (Inl (''__start__'', InvalidUpdateError), test_world 0) \<and>
   [''style'' \<mapsto> PyStr ''Baroque''] ''musician_input'' = None \<and>
   ''style'' \<in> set state_keys \<and> [''style'' \<mapsto> PyStr ''Baroque''] ''style'' \<noteq> None \<and>
   invoke test_ext [''style'' \<mapsto> PyStr ''Baroque''] (test_world 0) =
     (Inl (''melody_generator'', KeyError ''musician_input''), test_world 0) \<and>
   [''musician_input'' \<mapsto> PyStr ''Create a happy piece''] ''musician_input'' =
     Some (PyStr ''Create a happy piece'') \<and>
   [''musician_input'' \<mapsto> PyStr ''Create a happy piece''] ''style'' = None \<and>
   llm_replies test_ext \<and>
   (\<exists>c1 c2 c3. invoke test_ext [''musician_input'' \<mapsto> PyStr ''Create a happy piece''] (test_world 0) =
      (Inl (''style_adapter'', KeyError ''style''),
       test_world 0\<lparr>llm_calls := llm_calls (test_world 0) @ [c1, c2, c3]\<rparr>))"
proof -
  have 0: "list_all (\<lambda>k. [''scale'' \<mapsto> PyStr ''C major''] k = None) state_keys" by code_simp
  have 1: "[''style'' \<mapsto> PyStr ''Baroque''] ''musician_input'' = None" by code_simp
  have 2: "''style'' \<in> set state_keys" by code_simp
  have 3: "[''style'' \<mapsto> PyStr ''Baroque''] ''style'' \<noteq> None" by code_simp
  have 4: "[''musician_input'' \<mapsto> PyStr ''Create a happy piece''] ''musician_input'' =
     Some (PyStr ''Create a happy piece'')" by code_simp
  have 5: "[''musician_input'' \<mapsto> PyStr ''Create a happy piece''] ''style'' = None" by code_simp
  have 6: "llm_replies test_ext" by (rule llm_replies_test_ext)
  note t0 = C1_missing_key_raises_in_stage [where ext = test_ext and w = "test_world 0"
      and inp = "[''scale'' \<mapsto> PyStr ''C major'']"]
  note t1 = C1_missing_key_raises_in_stage [where ext = test_ext and w = "test_world 0"
      and inp = "[''style'' \<mapsto> PyStr ''Baroque'']"]
  note t2 = C1_missing_key_raises_in_stage [where ext = test_ext and w = "test_world 0"
      and inp = "[''musician_input'' \<mapsto> PyStr ''Create a happy piece'']"
      and v = "PyStr ''Create a happy piece''"]
  from 0 have z: "\<forall>k \<in> set state_keys. [''scale'' \<mapsto> PyStr ''C major''] k = None"
    by (simp only: list_all_iff)
  from t0 z have a: "invoke test_ext [''scale'' \<mapsto> PyStr ''C major''] (test_world 0) =
     (Inl (''__start__'', InvalidUpdateError), test_world 0)"
    by blast
  from 2 3 have "\<exists>k \<in> set state_keys. [''style'' \<mapsto> PyStr ''Baroque''] k \<noteq> None" by blast
  with t1 1 have b: "invoke test_ext [''style'' \<mapsto> PyStr ''Baroque''] (test_world 0) =
     (Inl (''melody_generator'', KeyError ''musician_input''), test_world 0)"
    by blast
  from t2 4 5 6 have c: "\<exists>c1 c2 c3. invoke test_ext [''musician_input'' \<mapsto> PyStr ''Create a happy piece''] (test_world 0) =
      (Inl (''style_adapter'', KeyError ''style''),
       test_world 0\<lparr>llm_calls := llm_calls (test_world 0) @ [c1, c2, c3]\<rparr>)"
    by blast
  from 0 1 2 3 4 5 6 a b c show ?thesis by blast
qed

theorem C1_counterexample:
  "[''musician_input'' \<mapsto> PyStr ''Create a happy piece''] ''style'' = None \<and>
   failure (invoke test_ext [''musician_input'' \<mapsto> PyStr ''Create a happy piece''] (test_world 0)) =
     Some (''style_adapter'', KeyError ''style'') \<and>
   exc_name (KeyError ''style'') \<noteq> ''MissingInputError'' \<and>
   length (llm_calls (snd (invoke test_ext [''musician_input'' \<mapsto> PyStr ''Create a happy piece'']
     (test_world 0)))) = 3"
  by code_simp

section \<open>The order in which keys are written\<close>

lemma writes_only_melody_generator: "writes_only ext melody_generator ''melody''"
  unfolding writes_only_def melody_generator_def
  by (auto dest!: bindE_Inr simp: lift_Inr ret_def)

lemma writes_only_harmony_creator: "writes_only ext harmony_creator ''harmony''"
  unfolding writes_only_def harmony_creator_def
  by (auto dest!: bindE_Inr simp: lift_Inr ret_def)

lemma writes_only_rhythm_analyzer: "writes_only ext rhythm_analyzer ''rhythm''"
  unfolding writes_only_def rhythm_analyzer_def
  by (auto dest!: bindE_Inr simp: lift_Inr ret_def)

lemma writes_only_style_adapter: "writes_only ext style_adapter ''composition''"
  unfolding writes_only_def style_adapter_def
  by (auto dest!: bindE_Inr simp: lift_Inr ret_def)

lemma writes_only_midi_converter: "writes_only ext midi_converter ''midi_file''"
  unfolding writes_only_def midi_converter_def
  by (auto dest!: bindE_Inr simp: lift_Inr ret_def)

lemma workflow_writes:
  "list_all2 (\<lambda>st key. writes_only ext (snd st) key) workflow stage_keys"
  by (simp add: workflow_def stage_keys_def writes_only_melody_generator
      writes_only_harmony_creator writes_only_rhythm_analyzer writes_only_style_adapter
      writes_only_midi_converter)

lemma length_states_from: "length (states_from ext stages s w) \<le> length stages"
  by (induction ext stages s w rule: states_from.induct) (auto split: prod.splits sum.splits)

lemma states_from_step:
  assumes "list_all2 (\<lambda>st key. writes_only ext (snd st) key) stages ks"
    and "k < length (states_from ext stages s w)"
  shows "\<exists>v. states_from ext stages s w ! k = ((s # states_from ext stages s w) ! k)(ks ! k \<mapsto> v)"
  using assms
proof (induction stages arbitrary: ks s w k)
  case Nil
  then show ?case by simp
next
  case (Cons st rest)
  obtain name f where st: "st = (name, f)" by (cases st)
  from Cons.prems(1) obtain key ks' where
    ks: "ks = key # ks'" and wo: "writes_only ext f key"
    and rest: "list_all2 (\<lambda>st key. writes_only ext (snd st) key) rest ks'"
    by (auto simp: list_all2_Cons1 st)
  obtain r w1 where f: "f ext s w = (r, w1)" by (cases "f ext s w")
  show ?case
  proof (cases r)
    case (Inl e)
    with Cons.prems(2) f st show ?thesis by simp
  next
    case (Inr upd)
    with f have "f ext s w = (Inr upd, w1)" by simp
    with wo obtain v where upd: "upd = [(key, v)]" unfolding writes_only_def by blast
    define s1 where "s1 = s(key \<mapsto> v)"
    have tr: "states_from ext (st # rest) s w = s1 # states_from ext rest s1 w1"
      using f Inr upd st by (simp add: s1_def)
    show ?thesis
    proof (cases k)
      case 0
      with tr ks show ?thesis by (auto simp: s1_def)
    next
      case (Suc k')
      with Cons.prems(2) tr have "k' < length (states_from ext rest s1 w1)" by simp
      from Cons.IH [OF rest this] obtain v' where
        "states_from ext rest s1 w1 ! k' = ((s1 # states_from ext rest s1 w1) ! k')(ks' ! k' \<mapsto> v')"
        by blast
      with tr ks Suc show ?thesis by auto
    qed
  qed
qed

lemma stable_keys:
  assumes step: "\<And>k. k < length tr \<Longrightarrow> \<exists>v. tr ! k = ((s # tr) ! k)(ks ! k \<mapsto> v)"
    and d: "distinct ks" and l: "length tr \<le> length ks"
  shows "j < length tr \<Longrightarrow> i \<le> j \<Longrightarrow> (tr ! j) (ks ! i) = (tr ! i) (ks ! i)"
proof (induction j)
  case 0
  then show ?case by simp
next
  case (Suc j)
  show ?case
  proof (cases "i = Suc j")
    case True
    then show ?thesis by simp
  next
    case False
    with Suc.prems have ij: "i \<le> j" "j < length tr" by simp_all
    from step [OF Suc.prems(1)] obtain v where
      "tr ! Suc j = (tr ! j)(ks ! Suc j \<mapsto> v)" by auto
    moreover from d l Suc.prems ij have "ks ! Suc j \<noteq> ks ! i"
      by (simp add: nth_eq_iff_index_eq)
    ultimately have "(tr ! Suc j) (ks ! i) = (tr ! j) (ks ! i)" by simp
    with Suc.IH [OF ij(2) ij(1)] show ?thesis by simp
  qed
qed

lemma run_nodes_states_from:
  assumes "fst (run_nodes ext stages s w) = Inr s'"
  shows "length (states_from ext stages s w) = length stages \<and>
         s' = last (s # states_from ext stages s w)"
  using assms
proof (induction ext stages s w rule: run_nodes.induct)
  case (1 ext state w)
  then show ?case by simp
next
  case (2 ext name f rest state w)
  obtain r w1 where f: "f ext state w = (r, w1)" by (cases "f ext state w")
  show ?case
  proof (cases r)
    case (Inl e)
    with 2 f show ?thesis by simp
  next
    case (Inr upd)
    with "2.prems" f have "fst (run_nodes ext rest (state ++ map_of upd) w1) = Inr s'" by simp
    from "2.IH" [OF f [symmetric] Inr this] f Inr show ?thesis by simp
  qed
qed

lemma states_from_dom:
  assumes "list_all2 (\<lambda>st key. writes_only ext (snd st) key) stages ks"
    and "dom s \<subseteq> A" and "set ks \<subseteq> A"
  shows "\<forall>s' \<in> set (states_from ext stages s w). dom s' \<subseteq> A"
  using assms
proof (induction stages arbitrary: ks s w)
  case Nil
  then show ?case by simp
next
  case (Cons st rest)
  obtain name f where st: "st = (name, f)" by (cases st)
  from Cons.prems(1) obtain key ks' where
    ks: "ks = key # ks'" and wo: "writes_only ext f key"
    and rest: "list_all2 (\<lambda>st key. writes_only ext (snd st) key) rest ks'"
    by (auto simp: list_all2_Cons1 st)
  obtain r w1 where f: "f ext s w = (r, w1)" by (cases "f ext s w")
  show ?case
  proof (cases r)
    case (Inl e)
    with f st show ?thesis by simp
  next
    case (Inr upd)
    with f have "f ext s w = (Inr upd, w1)" by simp
    with wo obtain v where upd: "upd = [(key, v)]" unfolding writes_only_def by blast
    define s1 where "s1 = s(key \<mapsto> v)"
    have tr: "states_from ext (st # rest) s w = s1 # states_from ext rest s1 w1"
      using f Inr upd st by (simp add: s1_def)
    from Cons.prems(2,3) ks have d1: "dom s1 \<subseteq> A" by (auto simp: s1_def)
    from Cons.prems(3) ks have "set ks' \<subseteq> A" by simp
    from Cons.IH [OF rest d1 this] d1 tr show ?thesis by simp
  qed
qed

text \<open>
  C8: a run starts from the caller's input mapped onto the keys of \<^verbatim>\<open>MusicState\<close>. The
  state after each completed stage is the state before it with exactly that stage's
  key written: \<^verbatim>\<open>melody\<close>, \<^verbatim>\<open>harmony\<close>, \<^verbatim>\<open>rhythm\<close>, \<^verbatim>\<open>composition\<close>, \<^verbatim>\<open>midi_file\<close>, in this
  order. Every other key keeps its value, so a key written by a stage keeps the value
  that stage gave it through all later stages; no state holds a key outside
  \<^verbatim>\<open>MusicState\<close>; and a run that completes went through all five states, the last being
  its result.
\<close>

theorem C8_keys_in_pipeline_order:
  "length (run_states ext inp w) \<le> 5 \<and>
   (\<forall>k < length (run_states ext inp w).
      \<exists>v. run_states ext inp w ! k =
            ((inp |` set state_keys # run_states ext inp w) ! k)(stage_keys ! k \<mapsto> v)) \<and>
   (\<forall>j < length (run_states ext inp w). \<forall>i \<le> j.
      (run_states ext inp w ! j) (stage_keys ! i) = (run_states ext inp w ! i) (stage_keys ! i)) \<and>
   (\<forall>k < length (run_states ext inp w). dom (run_states ext inp w ! k) \<subseteq> set state_keys) \<and>
   (failure (invoke ext inp w) = None \<longrightarrow>
      length (run_states ext inp w) = 5 \<and>
      fst (invoke ext inp w) = Inr (last (run_states ext inp w)))"
proof (cases "map_input inp")
  case (Inl e)
  then have "run_states ext inp w = []" "failure (invoke ext inp w) \<noteq> None"
    by (simp_all add: run_states_def invoke_def failure_def)
  then show ?thesis by simp
next
  case (Inr s0)
  then have s0: "s0 = inp |` set state_keys"
    by (simp add: map_input_def split: if_splits)
  define tr where "tr = states_from ext workflow s0 w"
  from Inr have rs: "run_states ext inp w = tr" by (simp add: run_states_def tr_def)
  from Inr have inv: "invoke ext inp w = run_nodes ext workflow s0 w" by (simp add: invoke_def)
  have wl: "length (workflow :: (string \<times> ('a externals \<Rightarrow> MusicState \<Rightarrow> (update, 'a) m)) list) = 5"
    by (simp add: workflow_def)
  from length_states_from [of ext workflow s0 w] wl have l: "length tr \<le> 5"
    by (simp add: tr_def)
  have step: "\<exists>v. tr ! k = ((s0 # tr) ! k)(stage_keys ! k \<mapsto> v)" if "k < length tr" for k
    using states_from_step [OF workflow_writes, of k ext s0 w] that by (simp add: tr_def)
  have d: "distinct stage_keys" by (simp add: stage_keys_def)
  have lk: "length tr \<le> length stage_keys" using l by (simp add: stage_keys_def)
  have stable: "(tr ! j) (stage_keys ! i) = (tr ! i) (stage_keys ! i)"
    if "j < length tr" "i \<le> j" for i j
    using stable_keys [of tr s0 stage_keys j i, OF step d lk that] by simp
  have "dom s0 \<subseteq> set state_keys" by (auto simp: s0 restrict_map_def split: if_splits)
  moreover have "set stage_keys \<subseteq> set state_keys" by (simp add: stage_keys_def state_keys_def)
  ultimately have "\<forall>s' \<in> set tr. dom s' \<subseteq> set state_keys"
    unfolding tr_def by (rule states_from_dom [OF workflow_writes])
  then have doms: "dom (tr ! k) \<subseteq> set state_keys" if "k < length tr" for k
    using that by simp
  have fin: "length tr = 5 \<and> fst (invoke ext inp w) = Inr (last tr)"
    if "failure (invoke ext inp w) = None"
  proof -
    from that obtain s' where s: "fst (invoke ext inp w) = Inr s'"
      by (auto simp: failure_def split: sum.splits)
    then have "fst (run_nodes ext workflow s0 w) = Inr s'" by (simp add: inv)
    from run_nodes_states_from [OF this] wl have "length tr = 5" "s' = last (s0 # tr)"
      by (simp_all add: tr_def)
    moreover from this have "tr \<noteq> []" by auto
    ultimately show ?thesis using s by simp
  qed
  show ?thesis
    unfolding rs s0 [symmetric]
  proof (intro conjI allI impI)
    show "length tr \<le> 5" by (rule l)
  next
    fix k assume "k < length tr"
    then show "\<exists>v. tr ! k = ((s0 # tr) ! k)(stage_keys ! k \<mapsto> v)" by (rule step)
  next
    fix j i assume "j < length tr" "i \<le> j"
    then show "(tr ! j) (stage_keys ! i) = (tr ! i) (stage_keys ! i)" by (rule stable)
  next
    fix k assume "k < length tr"
    then show "dom (tr ! k) \<subseteq> set state_keys" by (rule doms)
  next
    assume f: "failure (invoke ext inp w) = None"
    from fin [OF f] show "length tr = 5" by simp
    from fin [OF f] show "fst (invoke ext inp w) = Inr (last tr)" by simp
  qed
qed

theorem C8_keys_in_pipeline_order_witness:
  "length (run_states test_ext ((inputs ''Create a happy piece'' ''Baroque'')(''duration'' \<mapsto> PyInt 8))
     (test_world 0)) = 5 \<and>
   failure (invoke test_ext ((inputs ''Create a happy piece'' ''Baroque'')(''duration'' \<mapsto> PyInt 8))
     (test_world 0)) = None \<and>
   (\<exists>v. run_states test_ext ((inputs ''Create a happy piece'' ''Baroque'')(''duration'' \<mapsto> PyInt 8))
          (test_world 0) ! 4 =
        ((((inputs ''Create a happy piece'' ''Baroque'')(''duration'' \<mapsto> PyInt 8)) |` set state_keys #
          run_states test_ext ((inputs ''Create a happy piece'' ''Baroque'')(''duration'' \<mapsto> PyInt 8))
            (test_world 0)) ! 4)
        (stage_keys ! 4 \<mapsto> v)) \<and>
   (run_states test_ext ((inputs ''Create a happy piece'' ''Baroque'')(''duration'' \<mapsto> PyInt 8))
      (test_world 0) ! 4) (stage_keys ! 0) =
   (run_states test_ext ((inputs ''Create a happy piece'' ''Baroque'')(''duration'' \<mapsto> PyInt 8))
      (test_world 0) ! 0) (stage_keys ! 0) \<and>
   dom (run_states test_ext ((inputs ''Create a happy piece'' ''Baroque'')(''duration'' \<mapsto> PyInt 8))
      (test_world 0) ! 4) \<subseteq> set state_keys \<and>
   fst (invoke test_ext ((inputs ''Create a happy piece'' ''Baroque'')(''duration'' \<mapsto> PyInt 8))
     (test_world 0)) =
     Inr (last (run_states test_ext ((inputs ''Create a happy piece'' ''Baroque'')(''duration'' \<mapsto> PyInt 8))
       (test_world 0))) \<and>
   map (\<lambda>s. s ''melody'')
     (run_states test_ext ((inputs ''Create a happy piece'' ''Baroque'')(''duration'' \<mapsto> PyInt 8))
       (test_world 0)) =
     replicate 5 (Some (PyStr ''X:1'')) \<and>
   map (\<lambda>s. s ''midi_file'')
     (run_states test_ext ((inputs ''Create a happy piece'' ''Baroque'')(''duration'' \<mapsto> PyInt 8))
       (test_world 0)) =
     [None, None, None, None, Some (PyStr ''/tmp/tmpa.mid'')] \<and>
   map (\<lambda>s. s ''duration'')
     (run_states test_ext ((inputs ''Create a happy piece'' ''Baroque'')(''duration'' \<mapsto> PyInt 8))
       (test_world 0)) =
     replicate 5 None"
proof -
  let ?IN = "(inputs ''Create a happy piece'' ''Baroque'')(''duration'' \<mapsto> PyInt 8)"
  let ?TR = "run_states test_ext ?IN (test_world 0)"
  have 1: "length ?TR = 5" by code_simp
  have 2: "failure (invoke test_ext ?IN (test_world 0)) = None" by code_simp
  have 3: "map (\<lambda>s. s ''melody'') ?TR = replicate 5 (Some (PyStr ''X:1''))" by code_simp
  have 4: "map (\<lambda>s. s ''midi_file'') ?TR = [None, None, None, None, Some (PyStr ''/tmp/tmpa.mid'')]"
    by code_simp
  have 5: "map (\<lambda>s. s ''duration'') ?TR = replicate 5 None" by code_simp
  note t = C8_keys_in_pipeline_order [where ext = test_ext and w = "test_world 0" and inp = ?IN]
  from t have tB: "\<forall>k < length ?TR. \<exists>v. ?TR ! k = ((?IN |` set state_keys # ?TR) ! k)(stage_keys ! k \<mapsto> v)"
    by (elim conjE)
  from t have tC: "\<forall>j < length ?TR. \<forall>i \<le> j. (?TR ! j) (stage_keys ! i) = (?TR ! i) (stage_keys ! i)"
    by (elim conjE)
  from t have tE: "\<forall>k < length ?TR. dom (?TR ! k) \<subseteq> set state_keys"
    by (elim conjE)
  from t have tD: "failure (invoke test_ext ?IN (test_world 0)) = None \<longrightarrow>
      length ?TR = 5 \<and> fst (invoke test_ext ?IN (test_world 0)) = Inr (last ?TR)"
    by (elim conjE)
  have l4: "4 < length ?TR" by (simp only: 1)
  from tB [rule_format, OF l4]
  have a: "\<exists>v. ?TR ! 4 = ((?IN |` set state_keys # ?TR) ! 4)(stage_keys ! 4 \<mapsto> v)" .
  have "(0::nat) \<le> 4" by simp
  from tC [rule_format, OF l4 this]
  have b: "(?TR ! 4) (stage_keys ! 0) = (?TR ! 0) (stage_keys ! 0)" .
  from tE [rule_format, OF l4]
  have e: "dom (?TR ! 4) \<subseteq> set state_keys" .
  from tD [rule_format, OF 2]
  have c: "fst (invoke test_ext ?IN (test_world 0)) = Inr (last ?TR)" by (rule conjunct2)
  show ?thesis
    apply (intro conjI)
            apply (rule 1)
           apply (rule 2)
          apply (rule a)
         apply (rule b)
        apply (rule e)
       apply (rule c)
      apply (rule 3)
     apply (rule 4)
    apply (rule 5)
    done
qed

end
